theory Spec2Isabelle
  imports Main "HOL-Library.Sublist"
begin

section \<open>Python values of the script\<close>

text \<open>
  The script \<^verbatim>\<open>scripts/update_project_status.py\<close> handles the bodies of the
  GitHub responses as the values that \<^verbatim>\<open>json.loads\<close> returns. An object is kept
  as the list of its items in order; a key is read with \<open>map_of\<close>. Numbers are
  integers (the script reads no fractional number).
\<close>

datatype json =
    JNull
  | JBool bool
  | JInt int
  | JStr string
  | JArr "json list"
  | JObj "(string \<times> json) list"

text \<open>
  The exceptions that can leave the script. \<open>SystemExit\<close> carries a message, as the
  script raises it; \<open>SystemExitStatus\<close> is \<^verbatim>\<open>SystemExit\<close> with an exit status, as
  \<^verbatim>\<open>argparse\<close> raises it. \<open>RequestError\<close> stands for whatever
  \<^verbatim>\<open>urllib.request.urlopen\<close> or \<^verbatim>\<open>json.loads\<close> raises inside \<^verbatim>\<open>_request\<close>
  (no connection, a status that is not a success, a body that is not JSON).
\<close>

datatype error =
    SystemExit string
  | SystemExitStatus int
  | RequestError
  | KeyError string
  | TypeError
  | AttributeError
  | SyntaxError
  | NameError string

definition andthen :: "error + 'a \<Rightarrow> ('a \<Rightarrow> error + 'b) \<Rightarrow> error + 'b" where
  "andthen r f = (case r of Inl e \<Rightarrow> Inl e | Inr v \<Rightarrow> f v)"

text \<open>Truth value of a Python object, as \<^verbatim>\<open>not x\<close> and \<^verbatim>\<open>if x\<close> read it.\<close>

fun truthy :: "json \<Rightarrow> bool" where
  "truthy JNull = False"
| "truthy (JBool b) = b"
| "truthy (JInt i) = (i \<noteq> 0)"
| "truthy (JStr s) = (s \<noteq> [])"
| "truthy (JArr xs) = (xs \<noteq> [])"
| "truthy (JObj kvs) = (kvs \<noteq> [])"

text \<open>\<^verbatim>\<open>v[k]\<close> with a string key: only a dict accepts it.\<close>

fun subscript :: "json \<Rightarrow> string \<Rightarrow> error + json" where
  "subscript (JObj kvs) k = (case map_of kvs k of None \<Rightarrow> Inl (KeyError k) | Some v \<Rightarrow> Inr v)"
| "subscript _ k = Inl TypeError"

text \<open>\<^verbatim>\<open>v.get(k, d)\<close>: only a dict has the method.\<close>

fun get :: "json \<Rightarrow> string \<Rightarrow> json \<Rightarrow> error + json" where
  "get (JObj kvs) k d = Inr (case map_of kvs k of None \<Rightarrow> d | Some v \<Rightarrow> v)"
| "get _ k d = Inl AttributeError"

text \<open>\<^verbatim>\<open>for x in v\<close>: a list gives its elements, a dict its keys, a string its characters.\<close>

fun py_iter :: "json \<Rightarrow> error + json list" where
  "py_iter (JArr xs) = Inr xs"
| "py_iter (JObj kvs) = Inr (map (\<lambda>kv. JStr (fst kv)) kvs)"
| "py_iter (JStr s) = Inr (map (\<lambda>c. JStr [c]) s)"
| "py_iter _ = Inl TypeError"

text \<open>
  \<^verbatim>\<open>a == b\<close>. Python's \<^verbatim>\<open>True\<close> and \<^verbatim>\<open>False\<close> are the integers 1 and 0; dicts are
  equal when they have the same keys with equal values, in any order.
\<close>

fun py_eq :: "json \<Rightarrow> json \<Rightarrow> bool" where
  "py_eq JNull JNull = True"
| "py_eq (JBool a) (JBool b) = (a = b)"
| "py_eq (JBool a) (JInt i) = ((if a then 1 else 0) = i)"
| "py_eq (JInt i) (JBool a) = (i = (if a then 1 else 0))"
| "py_eq (JInt i) (JInt j) = (i = j)"
| "py_eq (JStr s) (JStr t) = (s = t)"
| "py_eq (JArr xs) (JArr ys) = list_all2 py_eq xs ys"
| "py_eq (JObj a) (JObj b) =
     (set (map fst a) = set (map fst b) \<and>
      list_all (\<lambda>(k, v). case map_of b k of None \<Rightarrow> False | Some w \<Rightarrow> py_eq v w) a)"
| "py_eq _ _ = False"

text \<open>
  \<^verbatim>\<open>k in v\<close> for a string \<open>k\<close>: key of a dict, element of a list, substring of a
  string.
\<close>

fun py_in :: "string \<Rightarrow> json \<Rightarrow> error + bool" where
  "py_in k (JObj kvs) = Inr (k \<in> set (map fst kvs))"
| "py_in k (JArr xs) = Inr (list_ex (py_eq (JStr k)) xs)"
| "py_in k (JStr s) = Inr (sublist k s)"
| "py_in k _ = Inl TypeError"

subsection \<open>Text of a value\<close>

definition digit_char :: "nat \<Rightarrow> char" where
  "digit_char d = ''0123456789'' ! d"

function str_nat :: "nat \<Rightarrow> string" where
  "str_nat n = (if n < 10 then [digit_char n] else str_nat (n div 10) @ [digit_char (n mod 10)])"
  by pat_completeness auto
termination
  by (relation "measure id") auto

definition str_int :: "int \<Rightarrow> string" where
  "str_int i = (if i < 0 then CHR ''-'' # str_nat (nat (- i)) else str_nat (nat i))"

fun join :: "string \<Rightarrow> string list \<Rightarrow> string" where
  "join sep [] = []"
| "join sep [x] = x"
| "join sep (x # y # ys) = x @ sep @ join sep (y # ys)"

text \<open>
  \<^verbatim>\<open>repr(v)\<close>. A string is put between single quotes as it is, which is Python's
  text for a string of printable characters with no quote and no backslash.
\<close>

fun py_repr :: "json \<Rightarrow> string" where
  "py_repr JNull = ''None''"
| "py_repr (JBool b) = (if b then ''True'' else ''False'')"
| "py_repr (JInt i) = str_int i"
| "py_repr (JStr s) = [CHR 0x27] @ s @ [CHR 0x27]"
| "py_repr (JArr xs) = ''['' @ join '', '' (map py_repr xs) @ '']''"
| "py_repr (JObj kvs) =
     ''{'' @ join '', '' (map (\<lambda>kv. [CHR 0x27] @ fst kv @ [CHR 0x27] @ '': '' @ py_repr (snd kv)) kvs) @ ''}''"

text \<open>\<^verbatim>\<open>str(v)\<close>, which is what a replacement field \<^verbatim>\<open>{v}\<close> of an f-string prints.\<close>

definition py_str :: "json \<Rightarrow> string" where
  "py_str v = (case v of JStr s \<Rightarrow> s | _ \<Rightarrow> py_repr v)"

section \<open>The network and the state of a run\<close>

text \<open>
  What \<^verbatim>\<open>urllib.request.Request(url, data=data, headers=headers, method=method)\<close>
  holds. The body is kept as the value given to \<^verbatim>\<open>json.dumps\<close>.
\<close>

record http_request =
  req_url :: string
  req_method :: string
  req_headers :: "(string \<times> string) list"
  req_data :: "json option"

text \<open>
  The network answers a request, given the requests sent before it in the run, with the
  parsed body, or with nothing when \<^verbatim>\<open>_request\<close> raises.
\<close>

type_synonym network = "http_request list \<Rightarrow> http_request \<Rightarrow> json option"

text \<open>The effects of a run: the requests sent, in order, and the lines printed.\<close>

record run_state =
  requests :: "http_request list"
  printed :: "string list"

definition print :: "string \<Rightarrow> run_state \<Rightarrow> run_state" where
  "print line s = s\<lparr>printed := printed s @ [line]\<rparr>"

section \<open>The script\<close>

text \<open>
  The functions keep the names of the source without the leading underscore, which an
  Isabelle name cannot have.
\<close>

definition OWNER :: string where "OWNER = ''AlexanderZagaynov''"
definition REPO :: string where "REPO = ''ascenoria''"
definition PROJECT_NUMBER :: int where "PROJECT_NUMBER = 2"
definition STATUS_FIELD_NAME :: string where "STATUS_FIELD_NAME = ''Status''"
definition STATUS_DONE_VALUE :: string where "STATUS_DONE_VALUE = ''Done''"
definition GITHUB_API :: string where "GITHUB_API = ''https://api.github.com''"

text \<open>\<^verbatim>\<open>_require_token\<close>; the argument is \<^verbatim>\<open>os.environ\<close>.\<close>

definition require_token :: "(string \<Rightarrow> string option) \<Rightarrow> error + string" where
  "require_token environ =
     (case environ ''GITHUB_TOKEN'' of
        None \<Rightarrow> Inl (SystemExit ''GITHUB_TOKEN is required to update project status'')
      | Some token \<Rightarrow>
          if token = [] then Inl (SystemExit ''GITHUB_TOKEN is required to update project status'')
          else Inr token)"

text \<open>\<^verbatim>\<open>_request\<close>: the request is sent, then the answer is returned or the error raised.\<close>

definition build_request :: "string \<Rightarrow> string \<Rightarrow> string \<Rightarrow> json option \<Rightarrow> http_request" where
  "build_request url token method payload =
     \<lparr>req_url = url, req_method = method,
      req_headers =
        [(''Authorization'', ''Bearer '' @ token), (''User-Agent'', ''ascenoria-status-script'')]
        @ (if payload \<noteq> None then [(''Content-Type'', ''application/json'')] else []),
      req_data = payload\<rparr>"

definition request ::
  "network \<Rightarrow> string \<Rightarrow> string \<Rightarrow> string \<Rightarrow> json option \<Rightarrow> run_state \<Rightarrow> (error + json) \<times> run_state" where
  "request net url token method payload s =
     (let r = build_request url token method payload;
          s' = s\<lparr>requests := requests s @ [r]\<rparr>
      in case net (requests s) r of
           None \<Rightarrow> (Inl RequestError, s')
         | Some body \<Rightarrow> (Inr body, s'))"

text \<open>\<^verbatim>\<open>_graphql\<close>; it leaves \<^verbatim>\<open>method\<close> at its default.\<close>

definition graphql_request :: "string \<Rightarrow> json \<Rightarrow> string \<Rightarrow> http_request" where
  "graphql_request query variables token =
     build_request (GITHUB_API @ ''/graphql'') token ''GET''
       (Some (JObj [(''query'', JStr query), (''variables'', variables)]))"

definition graphql ::
  "network \<Rightarrow> string \<Rightarrow> json \<Rightarrow> string \<Rightarrow> run_state \<Rightarrow> (error + json) \<times> run_state" where
  "graphql net query variables token s =
     request net (GITHUB_API @ ''/graphql'') token ''GET''
       (Some (JObj [(''query'', JStr query), (''variables'', variables)])) s"

subsection \<open>Project metadata\<close>

definition project_query :: string where
  "project_query =
     ''\<newline>'' @
     ''    query($owner: String!, $number: Int!) {\<newline>'' @
     ''      user(login: $owner) {\<newline>'' @
     ''        projectV2(number: $number) {\<newline>'' @
     ''          id\<newline>'' @
     ''          fields(first: 20) {\<newline>'' @
     ''            nodes {\<newline>'' @
     ''              ... on ProjectV2SingleSelectField {\<newline>'' @
     ''                id\<newline>'' @
     ''                name\<newline>'' @
     ''                options { id name }\<newline>'' @
     ''              }\<newline>'' @
     ''            }\<newline>'' @
     ''          }\<newline>'' @
     ''        }\<newline>'' @
     ''      }\<newline>'' @
     ''    }\<newline>'' @
     ''    ''"

text \<open>The inner loop over the options of the Status field (lines 92 to 94): the last option named Done wins.\<close>

fun scan_options :: "json list \<Rightarrow> json \<Rightarrow> error + json" where
  "scan_options [] status_done_option = Inr status_done_option"
| "scan_options (option # rest) status_done_option =
     andthen (get option ''name'' JNull) (\<lambda>name.
       if py_eq name (JStr STATUS_DONE_VALUE)
       then andthen (subscript option ''id'') (\<lambda>i. scan_options rest i)
       else scan_options rest status_done_option)"

text \<open>
  The outer loop over the fields (lines 89 to 95), which stops at the first field named
  Status; it returns \<open>(status_field_id, status_done_option)\<close>, both \<^verbatim>\<open>None\<close> at the start.
\<close>

fun scan_fields :: "json list \<Rightarrow> error + json \<times> json" where
  "scan_fields [] = Inr (JNull, JNull)"
| "scan_fields (field # rest) =
     (if truthy field then
        andthen (get field ''name'' JNull) (\<lambda>name.
          if py_eq name (JStr STATUS_FIELD_NAME) then
            andthen (subscript field ''id'') (\<lambda>status_field_id.
            andthen (get field ''options'' (JArr [])) (\<lambda>options.
            andthen (py_iter options) (\<lambda>opts.
            andthen (scan_options opts JNull) (\<lambda>status_done_option.
              Inr (status_field_id, status_done_option)))))
          else scan_fields rest)
      else scan_fields rest)"

text \<open>Line 81: \<^verbatim>\<open>result["data"]["user"]["projectV2"]\<close>.\<close>

definition metadata_project :: "json \<Rightarrow> error + json" where
  "metadata_project result =
     andthen (subscript result ''data'') (\<lambda>d.
     andthen (subscript d ''user'') (\<lambda>u. subscript u ''projectV2''))"

text \<open>Line 89: the values that \<^verbatim>\<open>project["fields"]["nodes"]\<close> gives to the loop.\<close>

definition status_fields :: "json \<Rightarrow> error + json list" where
  "status_fields project =
     andthen (subscript project ''fields'') (\<lambda>fields.
     andthen (subscript fields ''nodes'') py_iter)"

text \<open>Lines 81 to 100: what \<^verbatim>\<open>_fetch_project_metadata\<close> does with the answer.\<close>

definition read_project_metadata :: "json \<Rightarrow> error + json \<times> json \<times> json" where
  "read_project_metadata result =
     andthen (metadata_project result) (\<lambda>project.
       if \<not> truthy project
       then Inl (SystemExit (''Project '' @ str_int PROJECT_NUMBER @ '' for '' @ OWNER @ '' was not found''))
       else
         andthen (subscript project ''id'') (\<lambda>project_id.
         andthen (status_fields project) (\<lambda>fs.
         andthen (scan_fields fs) (\<lambda>found.
           if \<not> truthy (fst found) \<or> \<not> truthy (snd found)
           then Inl (SystemExit ''Status field or Done option not found on project'')
           else Inr (project_id, fst found, snd found)))))"

definition metadata_request :: "string \<Rightarrow> http_request" where
  "metadata_request token =
     graphql_request project_query
       (JObj [(''owner'', JStr OWNER), (''number'', JInt PROJECT_NUMBER)]) token"

definition fetch_project_metadata ::
  "network \<Rightarrow> string \<Rightarrow> run_state \<Rightarrow> (error + json \<times> json \<times> json) \<times> run_state" where
  "fetch_project_metadata net token s =
     (case graphql net project_query
             (JObj [(''owner'', JStr OWNER), (''number'', JInt PROJECT_NUMBER)]) token s of
        (Inl e, s') \<Rightarrow> (Inl e, s')
      | (Inr result, s') \<Rightarrow> (read_project_metadata result, s'))"

subsection \<open>Closed issues with the label\<close>

text \<open>The list comprehension of line 106, which keeps the order of the answer.\<close>

fun non_pull_requests :: "json list \<Rightarrow> error + json list" where
  "non_pull_requests [] = Inr []"
| "non_pull_requests (issue # rest) =
     andthen (py_in ''pull_request'' issue) (\<lambda>marked.
     andthen (non_pull_requests rest) (\<lambda>kept.
       Inr (if marked then kept else issue # kept)))"

definition closed_issues_url :: string where
  "closed_issues_url =
     GITHUB_API @ ''/repos/'' @ OWNER @ ''/'' @ REPO
       @ ''/issues?state=closed&labels=codex:done&per_page=100''"

definition closed_codex_done_issues ::
  "network \<Rightarrow> string \<Rightarrow> run_state \<Rightarrow> (error + json list) \<times> run_state" where
  "closed_codex_done_issues net token s =
     (case request net closed_issues_url token ''GET'' None s of
        (Inl e, s') \<Rightarrow> (Inl e, s')
      | (Inr issues, s') \<Rightarrow> (andthen (py_iter issues) non_pull_requests, s'))"

subsection \<open>The project item of an issue\<close>

definition item_query :: string where
  "item_query =
     ''\<newline>'' @
     ''    query($issueId: ID!) {\<newline>'' @
     ''      node(id: $issueId) {\<newline>'' @
     ''        ... on Issue {\<newline>'' @
     ''          projectItems(first: 20, includeArchived: false) {\<newline>'' @
     ''            nodes {\<newline>'' @
     ''              id\<newline>'' @
     ''              project { id }\<newline>'' @
     ''            }\<newline>'' @
     ''          }\<newline>'' @
     ''        }\<newline>'' @
     ''      }\<newline>'' @
     ''    }\<newline>'' @
     ''    ''"

text \<open>\<^verbatim>\<open>item.get("project", {}).get("id")\<close>\<close>

definition item_project_id :: "json \<Rightarrow> error + json" where
  "item_project_id item = andthen (get item ''project'' (JObj [])) (\<lambda>p. get p ''id'' JNull)"

text \<open>The loop of lines 127 to 130; \<^verbatim>\<open>None\<close> when no item matches.\<close>

fun find_item :: "json list \<Rightarrow> json \<Rightarrow> error + json" where
  "find_item [] project_id = Inr JNull"
| "find_item (item # rest) project_id =
     andthen (item_project_id item) (\<lambda>p.
       if py_eq p project_id then get item ''id'' JNull else find_item rest project_id)"

text \<open>Line 126: the items of the answer.\<close>

definition project_items :: "json \<Rightarrow> error + json list" where
  "project_items result =
     andthen (subscript result ''data'') (\<lambda>d.
     andthen (subscript d ''node'') (\<lambda>n.
     andthen (get n ''projectItems'' (JObj [])) (\<lambda>pis.
     andthen (get pis ''nodes'' (JArr [])) (\<lambda>items. py_iter items))))"

definition item_request :: "json \<Rightarrow> string \<Rightarrow> http_request" where
  "item_request issue_node_id token =
     graphql_request item_query (JObj [(''issueId'', issue_node_id)]) token"

definition issue_project_item_id ::
  "network \<Rightarrow> json \<Rightarrow> json \<Rightarrow> string \<Rightarrow> run_state \<Rightarrow> (error + json) \<times> run_state" where
  "issue_project_item_id net issue_node_id project_id token s =
     (case graphql net item_query (JObj [(''issueId'', issue_node_id)]) token s of
        (Inl e, s') \<Rightarrow> (Inl e, s')
      | (Inr result, s') \<Rightarrow>
          (andthen (project_items result) (\<lambda>items. find_item items project_id), s'))"

subsection \<open>The mutation\<close>

definition mutation :: string where
  "mutation =
     ''\<newline>'' @
     ''    mutation($projectId: ID!, $itemId: ID!, $fieldId: ID!, $optionId: String!) {\<newline>'' @
     ''      updateProjectV2ItemFieldValue(input: {\<newline>'' @
     ''        projectId: $projectId,\<newline>'' @
     ''        itemId: $itemId,\<newline>'' @
     ''        fieldId: $fieldId,\<newline>'' @
     ''        value: { singleSelectOptionId: $optionId }\<newline>'' @
     ''      }) {\<newline>'' @
     ''        projectV2Item { id }\<newline>'' @
     ''      }\<newline>'' @
     ''    }\<newline>'' @
     ''    ''"

definition mutation_variables :: "json \<Rightarrow> json \<Rightarrow> json \<Rightarrow> json \<Rightarrow> json" where
  "mutation_variables project_id item_id field_id status_option_id =
     JObj [(''projectId'', project_id), (''itemId'', item_id),
           (''fieldId'', field_id), (''optionId'', status_option_id)]"

definition update_request :: "json \<Rightarrow> json \<Rightarrow> json \<Rightarrow> json \<Rightarrow> string \<Rightarrow> http_request" where
  "update_request project_id item_id field_id status_option_id token =
     graphql_request mutation
       (mutation_variables project_id item_id field_id status_option_id) token"

definition update_status ::
  "network \<Rightarrow> json \<Rightarrow> json \<Rightarrow> json \<Rightarrow> json \<Rightarrow> string \<Rightarrow> run_state \<Rightarrow> (error + unit) \<times> run_state" where
  "update_status net project_id item_id field_id status_option_id token s =
     (case graphql net mutation
             (mutation_variables project_id item_id field_id status_option_id) token s of
        (Inl e, s') \<Rightarrow> (Inl e, s')
      | (Inr result, s') \<Rightarrow> (Inr (), s'))"

subsection \<open>The driver\<close>

text \<open>
  Line 174 writes the template of the issue address as the f-string
  \<^verbatim>\<open>f"{GITHUB_API}/repos/{OWNER}/{REPO}/issues/{}"\<close> and line 177 fills it with
  \<^verbatim>\<open>url_template.format(number)\<close>. The text that \<^verbatim>\<open>format\<close> is meant to fill ends
  with the field \<^verbatim>\<open>{}\<close>, and \<open>url_template\<close> is that text: it is not what line 174
  evaluates to. Python does not accept the literal of line 174 (see \<open>fstring\<close> and
  \<open>script\<close> below), so \<open>select_issues\<close> and \<open>main\<close> say what the functions do once the
  module is loaded with that template, and \<open>script\<close> says what the program does.
\<close>

definition url_template :: string where
  "url_template = GITHUB_API @ ''/repos/'' @ OWNER @ ''/'' @ REPO @ ''/issues/{}''"

text \<open>\<^verbatim>\<open>template.format(a)\<close> for a template whose only braces are one field \<^verbatim>\<open>{}\<close>.\<close>

fun format1 :: "string \<Rightarrow> string \<Rightarrow> string" where
  "format1 [] a = []"
| "format1 [c] a = [c]"
| "format1 (c # d # cs) a =
     (if c = CHR ''{'' \<and> d = CHR ''}'' then a @ cs else c # format1 (d # cs) a)"

definition issue_url :: "int \<Rightarrow> string" where
  "issue_url number = format1 url_template (str_int number)"

definition issue_request :: "string \<Rightarrow> int \<Rightarrow> http_request" where
  "issue_request token number = build_request (issue_url number) token ''GET'' None"

text \<open>The loop of lines 176 and 177, which appends each answer to \<^verbatim>\<open>selected\<close>.\<close>

fun fetch_selected ::
  "network \<Rightarrow> string \<Rightarrow> int list \<Rightarrow> run_state \<Rightarrow> (error + json list) \<times> run_state" where
  "fetch_selected net token [] s = (Inr [], s)"
| "fetch_selected net token (number # rest) s =
     (case request net (issue_url number) token ''GET'' None s of
        (Inl e, s') \<Rightarrow> (Inl e, s')
      | (Inr issue, s') \<Rightarrow>
          (case fetch_selected net token rest s' of
             (Inl e, s'') \<Rightarrow> (Inl e, s'')
           | (Inr selected, s'') \<Rightarrow> (Inr (issue # selected), s'')))"

text \<open>The body of the loop of lines 184 to 197.\<close>

definition process_issue ::
  "network \<Rightarrow> string \<Rightarrow> json \<Rightarrow> json \<Rightarrow> json \<Rightarrow> json \<Rightarrow> run_state \<Rightarrow> (error + unit) \<times> run_state" where
  "process_issue net token project_id status_field_id status_done_option issue s =
     (case subscript issue ''number'' of
        Inl e \<Rightarrow> (Inl e, s)
      | Inr issue_number \<Rightarrow>
     (case get issue ''node_id'' JNull of
        Inl e \<Rightarrow> (Inl e, s)
      | Inr issue_node_id \<Rightarrow>
          if \<not> truthy issue_node_id
          then (Inr (), print (''- #'' @ py_str issue_number @ '': missing node id, skipping'') s)
          else
            (case issue_project_item_id net issue_node_id project_id token s of
               (Inl e, s') \<Rightarrow> (Inl e, s')
             | (Inr item_id, s') \<Rightarrow>
                 if \<not> truthy item_id
                 then (Inr (), print (''- #'' @ py_str issue_number @ '': not present on project, skipping'') s')
                 else
                   (case update_status net project_id item_id status_field_id status_done_option token s' of
                      (Inl e, s'') \<Rightarrow> (Inl e, s'')
                    | (Inr u, s'') \<Rightarrow>
                        (Inr (), print (''- #'' @ py_str issue_number @ '': status updated to '' @ STATUS_DONE_VALUE) s'')))))"

fun process_issues ::
  "network \<Rightarrow> string \<Rightarrow> json \<Rightarrow> json \<Rightarrow> json \<Rightarrow> json list \<Rightarrow> run_state \<Rightarrow> (error + unit) \<times> run_state" where
  "process_issues net token project_id status_field_id status_done_option [] s = (Inr (), s)"
| "process_issues net token project_id status_field_id status_done_option (issue # rest) s =
     (case process_issue net token project_id status_field_id status_done_option issue s of
        (Inl e, s') \<Rightarrow> (Inl e, s')
      | (Inr u, s') \<Rightarrow> process_issues net token project_id status_field_id status_done_option rest s')"

text \<open>Lines 172 to 180: the issues of the run, from the arguments or from the label.\<close>

definition select_issues ::
  "network \<Rightarrow> string \<Rightarrow> int list \<Rightarrow> run_state \<Rightarrow> (error + json list) \<times> run_state" where
  "select_issues net token issues s =
     (if issues \<noteq> [] then fetch_selected net token (sorted_list_of_set (set issues)) s
      else closed_codex_done_issues net token s)"

definition summary_line :: "nat \<Rightarrow> string" where
  "summary_line n =
     ''Updating '' @ str_nat n @ '' issue(s) to Status='' @ STATUS_DONE_VALUE
       @ '' on project '' @ str_int PROJECT_NUMBER @ ''...''"

text \<open>
  \<^verbatim>\<open>main\<close> from line 168 on; \<open>issues\<close> is \<^verbatim>\<open>args.issues\<close>, the integers that line 167
  has read from the command line. The call of line 167 and the compilation of the module,
  which come before, are in \<open>script\<close> below.
\<close>

definition main ::
  "network \<Rightarrow> (string \<Rightarrow> string option) \<Rightarrow> int list \<Rightarrow> run_state \<Rightarrow> (error + unit) \<times> run_state" where
  "main net environ issues s =
     (case require_token environ of
        Inl e \<Rightarrow> (Inl e, s)
      | Inr token \<Rightarrow>
     (case fetch_project_metadata net token s of
        (Inl e, s1) \<Rightarrow> (Inl e, s1)
      | (Inr (project_id, status_field_id, status_done_option), s1) \<Rightarrow>
     (case select_issues net token issues s1 of
        (Inl e, s2) \<Rightarrow> (Inl e, s2)
      | (Inr selected, s2) \<Rightarrow>
          process_issues net token project_id status_field_id status_done_option selected
            (print (summary_line (length selected)) s2))))"

text \<open>
  The exit status of the interpreter: 0 when the script returns; the status that
  \<^verbatim>\<open>SystemExit\<close> carries; 1 when \<^verbatim>\<open>SystemExit\<close> carries a message (which is printed on
  the error stream) and when any other exception is not caught.
\<close>

fun exit_status :: "error + unit \<Rightarrow> int" where
  "exit_status (Inr u) = 0"
| "exit_status (Inl (SystemExitStatus status)) = status"
| "exit_status (Inl e) = 1"

definition initial :: run_state where
  "initial = \<lparr>requests = [], printed = []\<rparr>"

section \<open>The f-string of line 174\<close>

text \<open>
  How Python reads an f-string literal whose replacement fields are names. The literal
  is cut into pieces when the module is compiled: \<^verbatim>\<open>{{\<close> and \<^verbatim>\<open>}}\<close> are the
  characters \<^verbatim>\<open>{\<close> and \<^verbatim>\<open>}\<close>, a field runs from \<^verbatim>\<open>{\<close> to the next \<^verbatim>\<open>}\<close>, and a
  field with no expression, a field that is not closed and a \<^verbatim>\<open>}\<close> alone are syntax
  errors. Blanks around the expression of a field do not count. The fields are
  evaluated when the literal is.
\<close>

datatype piece = Lit char | Field string

definition strip_blanks :: "string \<Rightarrow> string" where
  "strip_blanks t =
     rev (dropWhile (\<lambda>x. x = CHR '' '') (rev (dropWhile (\<lambda>x. x = CHR '' '') t)))"

function fstring_pieces :: "string \<Rightarrow> error + piece list" where
  "fstring_pieces [] = Inr []"
| "fstring_pieces (c # cs) =
     (if c = CHR ''{'' then
        (if cs \<noteq> [] \<and> hd cs = CHR ''{''
         then andthen (fstring_pieces (tl cs)) (\<lambda>ps. Inr (Lit c # ps))
         else if dropWhile (\<lambda>x. x \<noteq> CHR ''}'') cs = [] then Inl SyntaxError
         else if list_all (\<lambda>x. x = CHR '' '') (takeWhile (\<lambda>x. x \<noteq> CHR ''}'') cs) then Inl SyntaxError
         else andthen (fstring_pieces (tl (dropWhile (\<lambda>x. x \<noteq> CHR ''}'') cs)))
                (\<lambda>ps. Inr (Field (strip_blanks (takeWhile (\<lambda>x. x \<noteq> CHR ''}'') cs)) # ps)))
      else if c = CHR ''}'' then
        (if cs \<noteq> [] \<and> hd cs = CHR ''}''
         then andthen (fstring_pieces (tl cs)) (\<lambda>ps. Inr (Lit c # ps))
         else Inl SyntaxError)
      else andthen (fstring_pieces cs) (\<lambda>ps. Inr (Lit c # ps)))"
  by pat_completeness auto
termination
  by (relation "measure length")
     (auto simp: less_Suc_eq_le intro: le_trans [OF diff_le_self length_dropWhile_le])

fun fstring_value :: "(string \<Rightarrow> string option) \<Rightarrow> piece list \<Rightarrow> error + string" where
  "fstring_value vars [] = Inr []"
| "fstring_value vars (Lit c # ps) = andthen (fstring_value vars ps) (\<lambda>r. Inr (c # r))"
| "fstring_value vars (Field n # ps) =
     (case vars n of
        None \<Rightarrow> Inl (NameError n)
      | Some v \<Rightarrow> andthen (fstring_value vars ps) (\<lambda>r. Inr (v @ r)))"

definition fstring :: "(string \<Rightarrow> string option) \<Rightarrow> string \<Rightarrow> error + string" where
  "fstring vars literal = andthen (fstring_pieces literal) (fstring_value vars)"

definition module_globals :: "string \<Rightarrow> string option" where
  "module_globals = map_of [(''GITHUB_API'', GITHUB_API), (''OWNER'', OWNER), (''REPO'', REPO)]"

section \<open>The program\<close>

text \<open>
  The f-string literals of the module, in the order of the lines 42, 57, 83, 104, 174,
  182, 188, 193 and 197. The rest of the module is well formed, so the module compiles
  when each of them can be cut into pieces, and the first that cannot is a syntax error.
\<close>

definition module_fstrings :: "string list" where
  "module_fstrings =
     [''Bearer {token}'',
      ''{GITHUB_API}/graphql'',
      ''Project {PROJECT_NUMBER} for {OWNER} was not found'',
      ''{GITHUB_API}/repos/{OWNER}/{REPO}/issues?state=closed&labels=codex:done&per_page=100'',
      ''{GITHUB_API}/repos/{OWNER}/{REPO}/issues/{}'',
      ''Updating {len(issues)} issue(s) to Status={STATUS_DONE_VALUE} on project {PROJECT_NUMBER}...'',
      ''- #{issue_number}: missing node id, skipping'',
      ''- #{issue_number}: not present on project, skipping'',
      ''- #{issue_number}: status updated to {STATUS_DONE_VALUE}'']"

fun check_literals :: "string list \<Rightarrow> error + unit" where
  "check_literals [] = Inr ()"
| "check_literals (literal # rest) =
     andthen (fstring_pieces literal) (\<lambda>ps. check_literals rest)"

definition compile_module :: "error + unit" where
  "compile_module = check_literals module_fstrings"

text \<open>
  \<^verbatim>\<open>python scripts/update_project_status.py\<close> with the arguments \<open>argv\<close>: the module is
  compiled, then run, which calls \<^verbatim>\<open>main\<close> (lines 200 and 201). Line 167 gives the
  arguments to \<^verbatim>\<open>argparse\<close>, which is not code of the script and is the parameter
  \<open>argparse\<close>: it ends the run with an exit status (0 after the help text, 2 after a
  usage error) or returns \<^verbatim>\<open>args.issues\<close>.
\<close>

definition script ::
  "(string list \<Rightarrow> int + int list) \<Rightarrow> network \<Rightarrow> (string \<Rightarrow> string option) \<Rightarrow> string list
     \<Rightarrow> run_state \<Rightarrow> (error + unit) \<times> run_state" where
  "script argparse net environ argv s =
     (case compile_module of
        Inl e \<Rightarrow> (Inl e, s)
      | Inr u \<Rightarrow>
          (case argparse argv of
             Inl status \<Rightarrow> (Inl (SystemExitStatus status), s)
           | Inr issues \<Rightarrow> main net environ issues s))"

section \<open>Vocabulary of the properties\<close>

text \<open>A request that carries the mutation of \<^verbatim>\<open>_update_status\<close>.\<close>

definition is_mutation :: "http_request \<Rightarrow> bool" where
  "is_mutation r =
     (case req_data r of
        Some (JObj [(q, JStr text), (v, variables)]) \<Rightarrow>
          q = ''query'' \<and> text = mutation \<and> v = ''variables''
      | _ \<Rightarrow> False)"

text \<open>An item whose parent project is, or is not, the project \<open>project_id\<close>.\<close>

definition on_project :: "json \<Rightarrow> json \<Rightarrow> bool" where
  "on_project project_id item =
     (case item_project_id item of Inl e \<Rightarrow> False | Inr p \<Rightarrow> py_eq p project_id)"

definition off_project :: "json \<Rightarrow> json \<Rightarrow> bool" where
  "off_project project_id item =
     (case item_project_id item of Inl e \<Rightarrow> False | Inr p \<Rightarrow> \<not> py_eq p project_id)"

text \<open>A field or an option whose name is exactly \<open>n\<close>.\<close>

definition named :: "string \<Rightarrow> json \<Rightarrow> bool" where
  "named n v = (get v ''name'' JNull = Inr (JStr n))"

text \<open>A field none of whose options is named Done.\<close>

definition lacks_done :: "json \<Rightarrow> bool" where
  "lacks_done field =
     (case andthen (get field ''options'' (JArr [])) py_iter of
        Inl e \<Rightarrow> True
      | Inr opts \<Rightarrow> \<not> list_ex (named STATUS_DONE_VALUE) opts)"

text \<open>A network that gives prepared answers in order, one for each request.\<close>

definition replay :: "json option list \<Rightarrow> network" where
  "replay answers sent r = (if length sent < length answers then answers ! length sent else None)"

text \<open>
  The request at position \<open>i\<close> of the requests \<open>tr\<close> is the mutation for an item that the
  answer to the request before it lists under the project \<open>pid\<close>.
\<close>

definition target_mutation ::
  "network \<Rightarrow> string \<Rightarrow> json \<Rightarrow> json \<Rightarrow> json \<Rightarrow> http_request list \<Rightarrow> nat \<Rightarrow> bool" where
  "target_mutation net token pid fid oid tr i =
     (\<exists>node_id result items item item_id.
        0 < i \<and> tr ! (i - 1) = item_request node_id token \<and>
        net (take (i - 1) tr) (item_request node_id token) = Some result \<and>
        project_items result = Inr items \<and> item \<in> set items \<and>
        on_project pid item \<and> get item ''id'' JNull = Inr item_id \<and>
        tr ! i = update_request pid item_id fid oid token)"

text \<open>Every mutation among the requests \<open>tr\<close> is one for an item of the project.\<close>

definition justified ::
  "network \<Rightarrow> string \<Rightarrow> json \<Rightarrow> json \<Rightarrow> json \<Rightarrow> http_request list \<Rightarrow> bool" where
  "justified net token pid fid oid tr =
     (\<forall>i < length tr. is_mutation (tr ! i) \<longrightarrow> target_mutation net token pid fid oid tr i)"

section \<open>Examples\<close>

text \<open>An environment that holds the token, and the answers of GitHub in a small run.\<close>

definition environ_with :: "string \<Rightarrow> string \<Rightarrow> string option" where
  "environ_with token k = (if k = ''GITHUB_TOKEN'' then Some token else None)"

definition example_metadata :: json where
  "example_metadata =
     JObj [(''data'', JObj [(''user'', JObj [(''projectV2'', JObj
       [(''id'', JStr ''P_1''),
        (''fields'', JObj [(''nodes'', JArr
          [JObj [],
           JObj [(''id'', JStr ''F_1''), (''name'', JStr ''Status''),
                 (''options'', JArr
                    [JObj [(''id'', JStr ''O_todo''), (''name'', JStr ''Todo'')],
                     JObj [(''id'', JStr ''O_done''), (''name'', JStr ''Done'')]])]])])])])])]"

definition example_no_project :: json where
  "example_no_project = JObj [(''data'', JObj [(''user'', JObj [(''projectV2'', JNull)])])]"

definition example_no_status :: json where
  "example_no_status =
     JObj [(''data'', JObj [(''user'', JObj [(''projectV2'', JObj
       [(''id'', JStr ''P_1''),
        (''fields'', JObj [(''nodes'', JArr
          [JObj [(''id'', JStr ''F_2''), (''name'', JStr ''Priority''),
                 (''options'', JArr [JObj [(''id'', JStr ''O_done''), (''name'', JStr ''Done'')]])]])])])])])]"

definition example_no_done :: json where
  "example_no_done =
     JObj [(''data'', JObj [(''user'', JObj [(''projectV2'', JObj
       [(''id'', JStr ''P_1''),
        (''fields'', JObj [(''nodes'', JArr
          [JObj [(''id'', JStr ''F_1''), (''name'', JStr ''Status''),
                 (''options'', JArr [JObj [(''id'', JStr ''O_todo''), (''name'', JStr ''Todo'')]])]])])])])])]"

definition example_issue :: json where
  "example_issue =
     JObj [(''number'', JInt 42), (''node_id'', JStr ''I_abc''), (''state'', JStr ''closed''),
           (''labels'', JArr [JObj [(''name'', JStr ''codex:done'')]])]"

definition example_pull_request :: json where
  "example_pull_request =
     JObj [(''number'', JInt 7), (''node_id'', JStr ''PR_7''), (''state'', JStr ''open''),
           (''labels'', JArr []), (''pull_request'', JObj [(''merged_at'', JNull)])]"

definition example_items :: json where
  "example_items =
     JObj [(''data'', JObj [(''node'', JObj [(''projectItems'', JObj [(''nodes'', JArr
       [JObj [(''id'', JStr ''PVTI_0''), (''project'', JObj [(''id'', JStr ''P_2'')])],
        JObj [(''id'', JStr ''PVTI_1''), (''project'', JObj [(''id'', JStr ''P_1'')])]])])])])]"

definition example_two_items :: json where
  "example_two_items =
     JObj [(''data'', JObj [(''node'', JObj [(''projectItems'', JObj [(''nodes'', JArr
       [JObj [(''id'', JStr ''PVTI_0''), (''project'', JObj [(''id'', JStr ''P_2'')])],
        JObj [(''id'', JStr ''PVTI_1''), (''project'', JObj [(''id'', JStr ''P_1'')])],
        JObj [(''id'', JStr ''PVTI_2''), (''project'', JObj [(''id'', JStr ''P_1'')])]])])])])]"

definition example_other_items :: json where
  "example_other_items =
     JObj [(''data'', JObj [(''node'', JObj [(''projectItems'', JObj [(''nodes'', JArr
       [JObj [(''id'', JStr ''PVTI_0''), (''project'', JObj [(''id'', JStr ''P_2'')])]])])])])]"

definition example_run :: network where
  "example_run =
     replay [Some example_metadata, Some (JArr [example_issue]), Some example_items, Some (JObj [])]"

section \<open>Properties\<close>

subsection \<open>Tools\<close>

lemma andthen_Inl [simp]: "andthen (Inl e) f = Inl e"
  by (simp add: andthen_def)

lemma andthen_Inr [simp]: "andthen (Inr v) f = f v"
  by (simp add: andthen_def)

lemma py_eq_JStr_right [simp]: "py_eq v (JStr x) \<longleftrightarrow> v = JStr x"
  by (cases v) auto

lemma py_eq_JStr_left [simp]: "py_eq (JStr x) v \<longleftrightarrow> v = JStr x"
  by (cases v) auto

lemma print_requests [simp]: "requests (print line s) = requests s"
  by (simp add: print_def)

lemma print_printed [simp]: "printed (print line s) = printed s @ [line]"
  by (simp add: print_def)

lemma request_eq:
  "request net url token m p s =
     ((case net (requests s) (build_request url token m p) of
         None \<Rightarrow> Inl RequestError | Some body \<Rightarrow> Inr body),
      s\<lparr>requests := requests s @ [build_request url token m p]\<rparr>)"
  by (simp add: request_def Let_def split: option.split)

lemma graphql_eq:
  "graphql net q v token s =
     ((case net (requests s) (graphql_request q v token) of
         None \<Rightarrow> Inl RequestError | Some body \<Rightarrow> Inr body),
      s\<lparr>requests := requests s @ [graphql_request q v token]\<rparr>)"
  by (simp add: graphql_def graphql_request_def request_eq)

lemma fetch_project_metadata_eq:
  "fetch_project_metadata net token s =
     ((case net (requests s) (metadata_request token) of
         None \<Rightarrow> Inl RequestError | Some result \<Rightarrow> read_project_metadata result),
      s\<lparr>requests := requests s @ [metadata_request token]\<rparr>)"
  by (simp add: fetch_project_metadata_def graphql_eq metadata_request_def split: option.split)

lemma issue_project_item_id_eq:
  "issue_project_item_id net issue_node_id project_id token s =
     ((case net (requests s) (item_request issue_node_id token) of
         None \<Rightarrow> Inl RequestError
       | Some result \<Rightarrow> andthen (project_items result) (\<lambda>items. find_item items project_id)),
      s\<lparr>requests := requests s @ [item_request issue_node_id token]\<rparr>)"
  by (simp add: issue_project_item_id_def graphql_eq item_request_def split: option.split)

lemma update_status_eq:
  "update_status net project_id item_id field_id option_id token s =
     ((case net (requests s) (update_request project_id item_id field_id option_id token) of
         None \<Rightarrow> Inl RequestError | Some result \<Rightarrow> Inr ()),
      s\<lparr>requests := requests s @ [update_request project_id item_id field_id option_id token]\<rparr>)"
  by (simp add: update_status_def graphql_eq update_request_def split: option.split)

lemma main_eq:
  assumes "require_token environ = Inr token"
      and "fetch_project_metadata net token s = (Inr (pid, fid, oid), s1)"
  shows "main net environ issues s =
           (case select_issues net token issues s1 of
              (Inl e, s2) \<Rightarrow> (Inl e, s2)
            | (Inr selected, s2) \<Rightarrow>
                process_issues net token pid fid oid selected
                  (print (summary_line (length selected)) s2))"
  using assms by (simp add: main_def)

lemma is_mutation_update [simp]: "is_mutation (update_request pid item_id fid oid token)"
  by (simp add: is_mutation_def update_request_def graphql_request_def build_request_def)

lemma not_mutation_item [simp]: "\<not> is_mutation (item_request node_id token)"
  by (simp add: is_mutation_def item_request_def graphql_request_def build_request_def
      item_query_def mutation_def)

lemma not_mutation_metadata [simp]: "\<not> is_mutation (metadata_request token)"
  by (simp add: is_mutation_def metadata_request_def graphql_request_def build_request_def
      project_query_def mutation_def)

lemma not_mutation_get [simp]: "\<not> is_mutation (build_request url token m None)"
  by (simp add: is_mutation_def build_request_def)

lemma require_token_environ_with [simp]:
  "require_token (environ_with ''t'') = Inr ''t''"
  by (simp add: require_token_def environ_with_def)

lemma read_example_metadata [simp]:
  "read_project_metadata example_metadata = Inr (JStr ''P_1'', JStr ''F_1'', JStr ''O_done'')"
  by (simp add: read_project_metadata_def example_metadata_def metadata_project_def
      status_fields_def STATUS_FIELD_NAME_def STATUS_DONE_VALUE_def)

lemma fetch_example_metadata:
  "fetch_project_metadata (replay (Some example_metadata # answers)) ''t'' initial =
     (Inr (JStr ''P_1'', JStr ''F_1'', JStr ''O_done''), initial\<lparr>requests := [metadata_request ''t'']\<rparr>)"
  by (simp add: fetch_project_metadata_eq replay_def initial_def)

lemma project_items_example [simp]:
  "project_items example_items =
     Inr [JObj [(''id'', JStr ''PVTI_0''), (''project'', JObj [(''id'', JStr ''P_2'')])],
          JObj [(''id'', JStr ''PVTI_1''), (''project'', JObj [(''id'', JStr ''P_1'')])]]"
  by (simp add: project_items_def example_items_def)

lemma on_off_example [simp]:
  "off_project (JStr ''P_1'') (JObj [(''id'', JStr ''PVTI_0''), (''project'', JObj [(''id'', JStr ''P_2'')])])"
  "on_project (JStr ''P_1'') (JObj [(''id'', i), (''project'', JObj [(''id'', JStr ''P_1'')])])"
  "\<not> on_project (JStr ''P_1'') (JObj [(''id'', JStr ''PVTI_0''), (''project'', JObj [(''id'', JStr ''P_2'')])])"
  "\<not> off_project (JStr ''P_1'') (JObj [(''id'', i), (''project'', JObj [(''id'', JStr ''P_1'')])])"
  by (simp_all add: on_project_def off_project_def item_project_id_def)

lemma summary_line_1: "summary_line (Suc 0) = ''Updating 1 issue(s) to Status=Done on project 2...''"
  by (simp add: summary_line_def STATUS_DONE_VALUE_def PROJECT_NUMBER_def str_int_def digit_char_def)

lemma example_run_metadata:
  "fetch_project_metadata example_run ''t'' initial =
     (Inr (JStr ''P_1'', JStr ''F_1'', JStr ''O_done''), initial\<lparr>requests := [metadata_request ''t'']\<rparr>)"
  by (simp add: example_run_def fetch_example_metadata)

lemma example_run_selected:
  "select_issues example_run ''t'' [] (initial\<lparr>requests := [metadata_request ''t'']\<rparr>) =
     (Inr [example_issue],
      initial\<lparr>requests := [metadata_request ''t'',
                               build_request closed_issues_url ''t'' ''GET'' None]\<rparr>)"
  by (simp add: select_issues_def closed_codex_done_issues_def request_eq example_run_def
      replay_def initial_def example_issue_def)

lemma main_example_run:
  "main example_run (environ_with ''t'') [] initial =
     (Inr (),
      \<lparr>requests = [metadata_request ''t'', build_request closed_issues_url ''t'' ''GET'' None,
                   item_request (JStr ''I_abc'') ''t'',
                   update_request (JStr ''P_1'') (JStr ''PVTI_1'') (JStr ''F_1'') (JStr ''O_done'') ''t''],
       printed = [''Updating 1 issue(s) to Status=Done on project 2...'',
                  ''- #42: status updated to Done'']\<rparr>)"
proof -
  have "main example_run (environ_with ''t'') [] initial =
      process_issues example_run ''t'' (JStr ''P_1'') (JStr ''F_1'') (JStr ''O_done'') [example_issue]
        (print (summary_line (length [example_issue]))
           (initial\<lparr>requests := [metadata_request ''t'',
                                    build_request closed_issues_url ''t'' ''GET'' None]\<rparr>))"
    by (simp add: main_eq [OF require_token_environ_with example_run_metadata] example_run_selected)
  then show ?thesis
    by (simp add: example_run_def replay_def initial_def example_issue_def
      process_issue_def issue_project_item_id_eq update_status_eq item_project_id_def
      print_def summary_line_1 py_str_def str_int_def digit_char_def STATUS_DONE_VALUE_def)
qed

subsection \<open>The token\<close>

text \<open>
  \<^verbatim>\<open>main\<close>, once it is called with the parsed arguments, raises \<^verbatim>\<open>SystemExit\<close> with the
  message of \<^verbatim>\<open>_require_token\<close> when the variable \<^verbatim>\<open>GITHUB_TOKEN\<close> is absent or empty,
  and leaves the state as it was: no request has been sent.
\<close>

lemma main_without_token:
  assumes "environ ''GITHUB_TOKEN'' = None \<or> environ ''GITHUB_TOKEN'' = Some []"
  shows "main net environ issues s =
           (Inl (SystemExit ''GITHUB_TOKEN is required to update project status''), s)
         \<and> exit_status (fst (main net environ issues s)) = 1"
  using assms by (auto simp: main_def require_token_def)

subsection \<open>Project metadata\<close>

lemma named_truthy: "named n v \<Longrightarrow> truthy v"
  by (cases v) (auto simp: named_def)

lemma scan_options_no_done:
  "\<not> list_ex (named STATUS_DONE_VALUE) opts \<Longrightarrow>
     scan_options opts acc = Inr acc \<or> (\<exists>e. scan_options opts acc = Inl e)"
proof (induction opts arbitrary: acc)
  case Nil
  then show ?case by simp
next
  case (Cons option rest)
  show ?case
  proof (cases "get option ''name'' JNull")
    case (Inl e)
    then show ?thesis by simp
  next
    case (Inr name)
    with Cons.prems have "name \<noteq> JStr STATUS_DONE_VALUE"
      by (simp add: named_def)
    with Inr Cons show ?thesis by simp
  qed
qed

lemma scan_fields_no_status:
  "\<not> list_ex (named STATUS_FIELD_NAME) fs \<Longrightarrow>
     scan_fields fs = Inr (JNull, JNull) \<or> (\<exists>e. scan_fields fs = Inl e)"
proof (induction fs)
  case Nil
  then show ?case by simp
next
  case (Cons field rest)
  show ?case
  proof (cases "get field ''name'' JNull")
    case (Inl e)
    with Cons show ?thesis by simp
  next
    case (Inr name)
    with Cons.prems have "name \<noteq> JStr STATUS_FIELD_NAME"
      by (simp add: named_def)
    with Inr Cons show ?thesis by simp
  qed
qed

lemma scan_fields_status_lacks_done:
  "find (named STATUS_FIELD_NAME) fs = Some field \<Longrightarrow> lacks_done field \<Longrightarrow>
     (\<exists>i. scan_fields fs = Inr (i, JNull)) \<or> (\<exists>e. scan_fields fs = Inl e)"
proof (induction fs)
  case Nil
  then show ?case by simp
next
  case (Cons f rest)
  show ?case
  proof (cases "named STATUS_FIELD_NAME f")
    case True
    with Cons.prems have f: "f = field" by simp
    from True have t: "truthy f" by (rule named_truthy)
    from True have n: "get f ''name'' JNull = Inr (JStr STATUS_FIELD_NAME)"
      by (simp add: named_def)
    show ?thesis
    proof (cases "subscript f ''id''")
      case (Inl e)
      with t n show ?thesis by simp
    next
      case i: (Inr i)
      show ?thesis
      proof (cases "andthen (get f ''options'' (JArr [])) py_iter")
        case (Inl e)
        with t n i show ?thesis by (auto simp: andthen_def split: sum.splits)
      next
        case (Inr opts)
        with Cons.prems f have "\<not> list_ex (named STATUS_DONE_VALUE) opts"
          by (simp add: lacks_done_def)
        from scan_options_no_done [OF this, of JNull] Inr t n i show ?thesis
          by (auto simp: andthen_def split: sum.splits)
      qed
    qed
  next
    case False
    with Cons.prems have "find (named STATUS_FIELD_NAME) rest = Some field" by simp
    from Cons.IH [OF this Cons.prems(2)] False show ?thesis
      by (cases "get f ''name'' JNull") (auto simp: named_def)
  qed
qed

lemma read_project_metadata_fails:
  assumes "metadata_project result = Inr project"
      and "\<not> truthy project \<or>
           (status_fields project = Inr fs \<and>
             (\<not> list_ex (named STATUS_FIELD_NAME) fs \<or>
              (find (named STATUS_FIELD_NAME) fs = Some field \<and> lacks_done field)))"
  shows "\<exists>e. read_project_metadata result = Inl e"
proof (cases "truthy project")
  case False
  with assms(1) show ?thesis by (simp add: read_project_metadata_def)
next
  case True
  with assms(2) have fs: "status_fields project = Inr fs"
    and bad: "\<not> list_ex (named STATUS_FIELD_NAME) fs \<or>
              (find (named STATUS_FIELD_NAME) fs = Some field \<and> lacks_done field)"
    by auto
  from bad have "(\<exists>i. scan_fields fs = Inr (i, JNull)) \<or> (\<exists>e. scan_fields fs = Inl e)"
    using scan_fields_no_status [of fs] scan_fields_status_lacks_done [of fs field] by auto
  with assms(1) True fs show ?thesis
    by (cases "subscript project ''id''") (auto simp: read_project_metadata_def)
qed

text \<open>
  Claim C4. With a token, when the answer to the metadata query has no project (the
  value under \<^verbatim>\<open>projectV2\<close> is \<^verbatim>\<open>null\<close>), or none of the fields of the project is named
  exactly Status, or the first field named Status has no option named exactly Done,
  \<^verbatim>\<open>main\<close> ends with an error and the metadata query is the only request of the run:
  no issue is fetched, looked up or changed, and nothing is printed.
\<close>

theorem metadata_failure_stops_run:
  assumes "require_token environ = Inr token"
      and "net (requests s) (metadata_request token) = Some result"
      and "metadata_project result = Inr project"
      and "\<not> truthy project \<or>
           (status_fields project = Inr fs \<and>
             (\<not> list_ex (named STATUS_FIELD_NAME) fs \<or>
              (find (named STATUS_FIELD_NAME) fs = Some field \<and> lacks_done field)))"
  shows "\<exists>e. main net environ issues s =
           (Inl e, s\<lparr>requests := requests s @ [metadata_request token]\<rparr>)"
proof -
  from read_project_metadata_fails [OF assms(3,4)]
  obtain e where "read_project_metadata result = Inl e" ..
  with assms(1,2) show ?thesis
    by (simp add: main_def fetch_project_metadata_eq)
qed

theorem metadata_failure_stops_run_witness:
  "(\<exists>e. main (replay [Some example_no_project]) (environ_with ''t'') [42] initial =
         (Inl e, initial\<lparr>requests := requests initial @ [metadata_request ''t'']\<rparr>))
   \<and> (\<exists>e. main (replay [Some example_no_status]) (environ_with ''t'') [42] initial =
         (Inl e, initial\<lparr>requests := requests initial @ [metadata_request ''t'']\<rparr>))
   \<and> (\<exists>e. main (replay [Some example_no_done]) (environ_with ''t'') [] initial =
         (Inl e, initial\<lparr>requests := requests initial @ [metadata_request ''t'']\<rparr>))"
proof (intro conjI)
  have r: "replay [Some example_no_project] (requests initial) (metadata_request ''t'')
             = Some example_no_project"
    by (simp add: replay_def initial_def)
  have p: "metadata_project example_no_project = Inr JNull"
    by (simp add: metadata_project_def example_no_project_def)
  from metadata_failure_stops_run [where net = "replay [Some example_no_project]" and s = initial,
      OF require_token_environ_with r p]
  show "\<exists>e. main (replay [Some example_no_project]) (environ_with ''t'') [42] initial =
         (Inl e, initial\<lparr>requests := requests initial @ [metadata_request ''t'']\<rparr>)"
    by simp
next
  let ?project = "JObj
       [(''id'', JStr ''P_1''),
        (''fields'', JObj [(''nodes'', JArr
          [JObj [(''id'', JStr ''F_2''), (''name'', JStr ''Priority''),
                 (''options'', JArr [JObj [(''id'', JStr ''O_done''), (''name'', JStr ''Done'')]])]])])]"
  have r: "replay [Some example_no_status] (requests initial) (metadata_request ''t'')
             = Some example_no_status"
    by (simp add: replay_def initial_def)
  have p: "metadata_project example_no_status = Inr ?project"
    by (simp add: metadata_project_def example_no_status_def)
  have f: "status_fields ?project =
      Inr [JObj [(''id'', JStr ''F_2''), (''name'', JStr ''Priority''),
                 (''options'', JArr [JObj [(''id'', JStr ''O_done''), (''name'', JStr ''Done'')]])]]"
    by (simp add: status_fields_def)
  have n: "\<not> list_ex (named STATUS_FIELD_NAME)
      [JObj [(''id'', JStr ''F_2''), (''name'', JStr ''Priority''),
                 (''options'', JArr [JObj [(''id'', JStr ''O_done''), (''name'', JStr ''Done'')]])]]"
    by (simp add: named_def STATUS_FIELD_NAME_def)
  from metadata_failure_stops_run [where net = "replay [Some example_no_status]" and s = initial,
      OF require_token_environ_with r p] f n
  show "\<exists>e. main (replay [Some example_no_status]) (environ_with ''t'') [42] initial =
         (Inl e, initial\<lparr>requests := requests initial @ [metadata_request ''t'']\<rparr>)"
    by blast
next
  let ?field = "JObj [(''id'', JStr ''F_1''), (''name'', JStr ''Status''),
                 (''options'', JArr [JObj [(''id'', JStr ''O_todo''), (''name'', JStr ''Todo'')]])]"
  let ?project = "JObj [(''id'', JStr ''P_1''), (''fields'', JObj [(''nodes'', JArr [?field])])]"
  have r: "replay [Some example_no_done] (requests initial) (metadata_request ''t'')
             = Some example_no_done"
    by (simp add: replay_def initial_def)
  have p: "metadata_project example_no_done = Inr ?project"
    by (simp add: metadata_project_def example_no_done_def)
  have f: "status_fields ?project = Inr [?field]"
    by (simp add: status_fields_def)
  have n: "find (named STATUS_FIELD_NAME) [?field] = Some ?field"
    by (simp add: named_def STATUS_FIELD_NAME_def)
  have l: "lacks_done ?field"
    by (simp add: lacks_done_def named_def STATUS_DONE_VALUE_def)
  from metadata_failure_stops_run [where net = "replay [Some example_no_done]" and s = initial,
      OF require_token_environ_with r p] f n l
  show "\<exists>e. main (replay [Some example_no_done]) (environ_with ''t'') [] initial =
         (Inl e, initial\<lparr>requests := requests initial @ [metadata_request ''t'']\<rparr>)"
    by blast
qed

subsection \<open>Issues found by the label\<close>

lemma non_pull_requests_objects:
  "non_pull_requests (map JObj entries) =
     Inr (map JObj (filter (\<lambda>kvs. ''pull_request'' \<notin> set (map fst kvs)) entries))"
  by (induction entries) auto

text \<open>
  Claim C6. With no issue number on the command line, when the answer to the request for
  the closed issues is a list of objects, the issues of the run are the objects that
  have no key \<^verbatim>\<open>pull_request\<close>, in the order of the answer; every object with the key
  is left out.
\<close>

theorem closed_issues_without_pull_requests:
  assumes "net (requests s) (build_request closed_issues_url token ''GET'' None)
             = Some (JArr (map JObj entries))"
  shows "closed_codex_done_issues net token s =
           (Inr (map JObj (filter (\<lambda>kvs. ''pull_request'' \<notin> set (map fst kvs)) entries)),
            s\<lparr>requests := requests s @ [build_request closed_issues_url token ''GET'' None]\<rparr>)
         \<and> select_issues net token [] s = closed_codex_done_issues net token s"
  using assms
  by (simp add: closed_codex_done_issues_def request_eq non_pull_requests_objects select_issues_def)

theorem closed_issues_without_pull_requests_witness:
  "closed_codex_done_issues
     (replay [Some (JArr (map JObj
        [[(''number'', JInt 9)],
         [(''number'', JInt 7), (''pull_request'', JObj [])],
         [(''number'', JInt 42)]]))]) ''t'' initial =
     (Inr [JObj [(''number'', JInt 9)], JObj [(''number'', JInt 42)]],
      initial\<lparr>requests := [build_request closed_issues_url ''t'' ''GET'' None]\<rparr>)"
  using closed_issues_without_pull_requests
    [of "replay [Some (JArr (map JObj
        [[(''number'', JInt 9)],
         [(''number'', JInt 7), (''pull_request'', JObj [])],
         [(''number'', JInt 42)]]))]" initial "''t''"
        "[[(''number'', JInt 9)],
         [(''number'', JInt 7), (''pull_request'', JObj [])],
         [(''number'', JInt 42)]]"]
  by (simp add: replay_def initial_def)

subsection \<open>Issues named on the command line\<close>

lemma fstring_closed_issues_url:
  "fstring module_globals
     ''{GITHUB_API}/repos/{OWNER}/{REPO}/issues?state=closed&labels=codex:done&per_page=100''
   = Inr closed_issues_url"
  by (simp add: fstring_def module_globals_def closed_issues_url_def GITHUB_API_def OWNER_def
      REPO_def strip_blanks_def)

lemma fstring_blanks_in_field: "fstring module_globals ''{ OWNER }/{REPO}'' = Inr (OWNER @ ''/'' @ REPO)"
  by (simp add: fstring_def module_globals_def OWNER_def REPO_def strip_blanks_def)

lemma fstring_escaped_template:
  "fstring module_globals ''{GITHUB_API}/repos/{OWNER}/{REPO}/issues/{{}}'' = Inr url_template"
  by (simp add: fstring_def module_globals_def url_template_def GITHUB_API_def OWNER_def
      REPO_def strip_blanks_def)

text \<open>
  Claim C2. The claim needs the address of each issue, which line 177 makes from the
  template of line 174. The literal of line 174 ends with a replacement field that has
  no expression, and Python refuses such a literal with a syntax error when it compiles
  the module, whatever the issue numbers are; no issue is fetched. With the braces
  doubled the literal would be the template (\<open>fstring_escaped_template\<close>).
\<close>

theorem url_template_literal_rejected:
  "fstring module_globals ''{GITHUB_API}/repos/{OWNER}/{REPO}/issues/{}'' = Inl SyntaxError"
  by (simp add: fstring_def module_globals_def)

text \<open>
  With \<open>url_template\<close> for the template, the loop of lines 176 and 177 asks for each
  number of the command line once, in ascending order, and keeps every answer.
\<close>

lemma issue_url_eq:
  "issue_url n = ''https://api.github.com/repos/AlexanderZagaynov/ascenoria/issues/'' @ str_int n"
  by (simp add: issue_url_def url_template_def GITHUB_API_def OWNER_def REPO_def)

lemma fetch_selected_requests:
  "fetch_selected net token numbers s = (r, s') \<Longrightarrow>
     \<exists>k \<le> length numbers.
       s' = s\<lparr>requests := requests s @ map (issue_request token) (take k numbers)\<rparr> \<and>
       (\<forall>selected. r = Inr selected \<longrightarrow> k = length numbers)"
proof (induction numbers arbitrary: s r s')
  case Nil
  then show ?case by auto
next
  case (Cons number rest)
  let ?s1 = "s\<lparr>requests := requests s @ [issue_request token number]\<rparr>"
  show ?case
  proof (cases "net (requests s) (issue_request token number)")
    case None
    with Cons.prems have "r = Inl RequestError" "s' = ?s1"
      by (simp_all add: request_eq issue_request_def)
    then show ?thesis by (intro exI [of _ 1]) simp
  next
    case (Some issue)
    obtain r2 s2 where rest: "fetch_selected net token rest ?s1 = (r2, s2)"
      by (cases "fetch_selected net token rest ?s1")
    from Cons.IH [OF rest] obtain k where k: "k \<le> length rest"
      "s2 = ?s1\<lparr>requests := requests ?s1 @ map (issue_request token) (take k rest)\<rparr>"
      "\<forall>selected. r2 = Inr selected \<longrightarrow> k = length rest"
      by blast
    from Cons.prems Some rest have s': "s' = s2" and r: "(\<exists>sel. r = Inr sel) \<longrightarrow> (\<exists>sel. r2 = Inr sel)"
      by (auto simp: request_eq issue_request_def split: sum.splits)
    from k s' r show ?thesis
      by (intro exI [of _ "Suc k"]) auto
  qed
qed

lemma fetch_selected_answers:
  "fetch_selected net token numbers s = (Inr selected, s') \<Longrightarrow>
     length selected = length numbers \<and>
     (\<forall>i < length numbers.
        net (requests s @ map (issue_request token) (take i numbers))
            (issue_request token (numbers ! i)) = Some (selected ! i))"
proof (induction numbers arbitrary: s selected)
  case Nil
  then show ?case by simp
next
  case (Cons number rest)
  let ?s1 = "s\<lparr>requests := requests s @ [issue_request token number]\<rparr>"
  from Cons.prems obtain issue sel where
    a: "net (requests s) (issue_request token number) = Some issue"
    and b: "fetch_selected net token rest ?s1 = (Inr sel, s')"
    and c: "selected = issue # sel"
    by (auto simp: request_eq issue_request_def split: option.splits sum.splits prod.splits)
  from Cons.IH [OF b] have len: "length sel = length rest"
    and ans: "\<forall>i < length rest.
        net (requests ?s1 @ map (issue_request token) (take i rest))
            (issue_request token (rest ! i)) = Some (sel ! i)"
    by auto
  show ?case
  proof (intro conjI allI impI)
    show "length selected = length (number # rest)" using c len by simp
  next
    fix i
    assume "i < length (number # rest)"
    then show "net (requests s @ map (issue_request token) (take i (number # rest)))
            (issue_request token ((number # rest) ! i)) = Some (selected ! i)"
      using a c ans by (cases i) auto
  qed
qed

lemma explicit_mode_requests:
  assumes "issues \<noteq> []"
      and "select_issues net token issues s = (Inr selected, s')"
  shows "s' = s\<lparr>requests := requests s @ map (issue_request token) (sorted_list_of_set (set issues))\<rparr>
         \<and> sorted_wrt (<) (sorted_list_of_set (set issues))
         \<and> set (sorted_list_of_set (set issues)) = set issues
         \<and> length selected = card (set issues)
         \<and> (\<forall>i < length selected.
               net (requests s @ map (issue_request token) (take i (sorted_list_of_set (set issues))))
                   (issue_request token (sorted_list_of_set (set issues) ! i)) = Some (selected ! i))"
proof -
  let ?nums = "sorted_list_of_set (set issues)"
  from assms have f: "fetch_selected net token ?nums s = (Inr selected, s')"
    by (simp add: select_issues_def)
  from fetch_selected_requests [OF f]
  have "s' = s\<lparr>requests := requests s @ map (issue_request token) ?nums\<rparr>" by auto
  moreover have "sorted_wrt (<) ?nums" by (rule strict_sorted_list_of_set)
  moreover have "set ?nums = set issues" by simp
  moreover from fetch_selected_answers [OF f] have "length selected = card (set issues)"
    and "\<forall>i < length selected.
               net (requests s @ map (issue_request token) (take i ?nums))
                   (issue_request token (?nums ! i)) = Some (selected ! i)"
    by simp_all
  ultimately show ?thesis by simp
qed

subsection \<open>The item of an issue\<close>

lemma find_item_none:
  "list_all (off_project project_id) items \<Longrightarrow> find_item items project_id = Inr JNull"
  by (induction items) (auto simp: off_project_def split: sum.splits)

lemma find_item_first:
  "list_all (off_project project_id) before \<Longrightarrow> on_project project_id item \<Longrightarrow>
     find_item (before @ item # rest) project_id = get item ''id'' JNull"
  by (induction before) (auto simp: off_project_def on_project_def split: sum.splits)

lemma find_item_found:
  "find_item items project_id = Inr item_id \<Longrightarrow> truthy item_id \<Longrightarrow>
     \<exists>item \<in> set items. on_project project_id item \<and> get item ''id'' JNull = Inr item_id"
proof (induction items)
  case Nil
  then show ?case by auto
next
  case (Cons item rest)
  show ?case
  proof (cases "item_project_id item")
    case (Inl e)
    with Cons.prems show ?thesis by simp
  next
    case (Inr p)
    with Cons show ?thesis
      by (cases "py_eq p project_id") (auto simp: on_project_def)
  qed
qed

lemma process_issue_requests:
  assumes "process_issue net token pid fid oid issue s = (r, s')"
  shows "requests s' = requests s
         \<or> (\<exists>node_id. requests s' = requests s @ [item_request node_id token])
         \<or> (\<exists>node_id result items item item_id.
               requests s' = requests s @ [item_request node_id token,
                                           update_request pid item_id fid oid token] \<and>
               net (requests s) (item_request node_id token) = Some result \<and>
               project_items result = Inr items \<and> item \<in> set items \<and>
               on_project pid item \<and> get item ''id'' JNull = Inr item_id)"
proof (cases "subscript issue ''number''")
  case (Inl e)
  with assms show ?thesis by (simp add: process_issue_def)
next
  case number: (Inr number)
  show ?thesis
  proof (cases "get issue ''node_id'' JNull")
    case (Inl e)
    with assms number show ?thesis by (simp add: process_issue_def)
  next
    case node: (Inr node_id)
    show ?thesis
    proof (cases "truthy node_id")
      case False
      with assms number node show ?thesis by (auto simp: process_issue_def)
    next
      case True
      show ?thesis
      proof (cases "net (requests s) (item_request node_id token)")
        case None
        with assms number node True show ?thesis
          by (auto simp: process_issue_def issue_project_item_id_eq)
      next
        case (Some result)
        show ?thesis
        proof (cases "andthen (project_items result) (\<lambda>items. find_item items pid)")
          case (Inl e)
          with assms number node True Some show ?thesis
            by (auto simp: process_issue_def issue_project_item_id_eq)
        next
          case found: (Inr item_id)
          show ?thesis
          proof (cases "truthy item_id")
            case False
            with assms number node True Some found show ?thesis
              by (auto simp: process_issue_def issue_project_item_id_eq)
          next
            case t: True
            from found obtain items where items: "project_items result = Inr items"
              and f: "find_item items pid = Inr item_id"
              by (cases "project_items result") auto
            from find_item_found [OF f t] obtain item where
              "item \<in> set items" "on_project pid item" "get item ''id'' JNull = Inr item_id"
              by blast
            moreover from assms number node True Some found t
            have "requests s' = requests s @ [item_request node_id token,
                                              update_request pid item_id fid oid token]"
              by (auto simp: process_issue_def issue_project_item_id_eq update_status_eq
                  split: option.splits)
            ultimately show ?thesis using Some items by blast
          qed
        qed
      qed
    qed
  qed
qed

lemma process_issue_mutations:
  "length (filter is_mutation (requests (snd (process_issue net token pid fid oid issue s))))
     \<le> length (filter is_mutation (requests s)) + 1"
proof -
  obtain r s' where step: "process_issue net token pid fid oid issue s = (r, s')"
    by (cases "process_issue net token pid fid oid issue s")
  from process_issue_requests [OF step] show ?thesis
    by (auto simp: step)
qed

lemma process_issues_mutations:
  "length (filter is_mutation (requests (snd (process_issues net token pid fid oid issues s))))
     \<le> length (filter is_mutation (requests s)) + length issues"
proof (induction issues arbitrary: s)
  case Nil
  then show ?case by simp
next
  case (Cons issue rest)
  obtain r1 s1 where step: "process_issue net token pid fid oid issue s = (r1, s1)"
    by (cases "process_issue net token pid fid oid issue s")
  from process_issue_mutations [of net token pid fid oid issue s] step
  have le: "length (filter is_mutation (requests s1)) \<le> length (filter is_mutation (requests s)) + 1"
    by simp
  show ?case
  proof (cases r1)
    case (Inl e)
    with step le show ?thesis by simp
  next
    case (Inr u)
    with step Cons.IH [of s1] le show ?thesis by simp
  qed
qed

text \<open>
  Claim C10. When the answer to the item query lists several items of the project,
  the locator returns the identifier of the first of them, whatever comes after it; and
  the body of the loop sends at most one mutation for an issue, so a run sends at most
  as many mutations as it has issues.
\<close>

theorem first_item_and_single_mutation:
  "(net (requests s) (item_request node_id token) = Some result \<and>
    project_items result = Inr (before @ item # rest) \<and>
    list_all (off_project pid) before \<and> on_project pid item \<longrightarrow>
      issue_project_item_id net node_id pid token s =
        (get item ''id'' JNull, s\<lparr>requests := requests s @ [item_request node_id token]\<rparr>))
   \<and> length (filter is_mutation (requests (snd (process_issue net token pid fid oid issue s))))
        \<le> length (filter is_mutation (requests s)) + 1
   \<and> length (filter is_mutation (requests (snd (process_issues net token pid fid oid issues s))))
        \<le> length (filter is_mutation (requests s)) + length issues"
  using process_issue_mutations [of net token pid fid oid issue s]
        process_issues_mutations [of net token pid fid oid issues s]
  by (simp add: issue_project_item_id_eq find_item_first)

theorem first_item_and_single_mutation_witness:
  "issue_project_item_id (replay [Some example_two_items]) (JStr ''I_abc'') (JStr ''P_1'') ''t'' initial =
     (Inr (JStr ''PVTI_1''), initial\<lparr>requests := requests initial @ [item_request (JStr ''I_abc'') ''t'']\<rparr>)
   \<and> length (filter is_mutation (requests (snd (process_issue (replay [Some example_two_items, Some (JObj [])])
        ''t'' (JStr ''P_1'') (JStr ''F_1'') (JStr ''O_done'') example_issue initial)))) \<le> 1"
proof -
  let ?before = "[JObj [(''id'', JStr ''PVTI_0''), (''project'', JObj [(''id'', JStr ''P_2'')])]]"
  let ?item = "JObj [(''id'', JStr ''PVTI_1''), (''project'', JObj [(''id'', JStr ''P_1'')])]"
  let ?rest = "[JObj [(''id'', JStr ''PVTI_2''), (''project'', JObj [(''id'', JStr ''P_1'')])]]"
  have a: "replay [Some example_two_items] (requests initial) (item_request (JStr ''I_abc'') ''t'')
             = Some example_two_items"
    by (simp add: replay_def initial_def)
  have b: "project_items example_two_items = Inr (?before @ ?item # ?rest)"
    by (simp add: project_items_def example_two_items_def)
  have c: "list_all (off_project (JStr ''P_1'')) ?before" by simp
  have d: "on_project (JStr ''P_1'') ?item" by simp
  from first_item_and_single_mutation
    [where net = "replay [Some example_two_items]" and s = initial and node_id = "JStr ''I_abc''"
       and token = "''t''" and result = example_two_items and before = ?before and item = ?item
       and rest = ?rest and pid = "JStr ''P_1''", THEN conjunct1, rule_format, OF conjI [OF a conjI [OF b conjI [OF c d]]]]
  have one: "issue_project_item_id (replay [Some example_two_items]) (JStr ''I_abc'') (JStr ''P_1'') ''t'' initial =
     (Inr (JStr ''PVTI_1''), initial\<lparr>requests := requests initial @ [item_request (JStr ''I_abc'') ''t'']\<rparr>)"
    by simp
  from first_item_and_single_mutation
    [where net = "replay [Some example_two_items, Some (JObj [])]" and s = initial
       and token = "''t''" and pid = "JStr ''P_1''" and fid = "JStr ''F_1''" and oid = "JStr ''O_done''"
       and issue = example_issue, THEN conjunct2, THEN conjunct1]
  have two: "length (filter is_mutation (requests (snd (process_issue (replay [Some example_two_items, Some (JObj [])])
        ''t'' (JStr ''P_1'') (JStr ''F_1'') (JStr ''O_done'') example_issue initial)))) \<le> 1"
    by (simp add: initial_def)
  from one two show ?thesis by simp
qed

subsection \<open>Issues that are skipped\<close>

lemma process_issues_append:
  "process_issues net token pid fid oid (xs @ ys) s =
     (case process_issues net token pid fid oid xs s of
        (Inl e, s') \<Rightarrow> (Inl e, s')
      | (Inr u, s') \<Rightarrow> process_issues net token pid fid oid ys s')"
  by (induction xs arbitrary: s) (auto split: prod.splits sum.splits)

text \<open>
  In the loop, after the issues \<open>before\<close> have been processed, an issue with the number
  \<open>n\<close> that has no node identifier, or whose items (the answer to the item query) are
  all on other projects, adds its skip line to the output and, in the second case, the
  item query to the requests, which is not a mutation; the loop then goes on with the
  issues \<open>rest\<close> from that state. The step is not an error.
\<close>

lemma skipped_issue_continues:
  assumes "process_issues net token pid fid oid before s = (Inr (), s1)"
      and "subscript issue ''number'' = Inr (JInt n)"
      and "get issue ''node_id'' JNull = Inr node_id"
      and "truthy node_id \<longrightarrow>
             net (requests s1) (item_request node_id token) = Some result \<and>
             project_items result = Inr items \<and> list_all (off_project pid) items"
  shows "process_issues net token pid fid oid (before @ issue # rest) s =
           process_issues net token pid fid oid rest
             (if truthy node_id
              then s1\<lparr>requests := requests s1 @ [item_request node_id token],
                      printed := printed s1 @ [''- #'' @ str_int n @ '': not present on project, skipping'']\<rparr>
              else s1\<lparr>printed := printed s1 @ [''- #'' @ str_int n @ '': missing node id, skipping'']\<rparr>)
         \<and> \<not> is_mutation (item_request node_id token)"
proof -
  have step: "process_issue net token pid fid oid issue s1 =
      (Inr (), if truthy node_id
              then s1\<lparr>requests := requests s1 @ [item_request node_id token],
                      printed := printed s1 @ [''- #'' @ str_int n @ '': not present on project, skipping'']\<rparr>
              else s1\<lparr>printed := printed s1 @ [''- #'' @ str_int n @ '': missing node id, skipping'']\<rparr>)"
  proof (cases "truthy node_id")
    case True
    with assms(4) have r: "net (requests s1) (item_request node_id token) = Some result"
      and i: "project_items result = Inr items" and o: "list_all (off_project pid) items"
      by auto
    from i find_item_none [OF o]
    have "andthen (project_items result) (\<lambda>items. find_item items pid) = Inr JNull" by simp
    with assms(2,3) True r show ?thesis
      by (simp add: process_issue_def issue_project_item_id_eq print_def py_str_def)
  next
    case False
    with assms(2,3) show ?thesis
      by (simp add: process_issue_def print_def py_str_def)
  qed
  have "\<not> is_mutation (item_request node_id token)"
    by (simp add: is_mutation_def item_request_def graphql_request_def build_request_def
        item_query_def mutation_def)
  with step assms(1) show ?thesis
    by (simp add: process_issues_append)
qed

lemma skipped_issue_example:
  "process_issues (replay [Some example_other_items, Some example_items, Some (JObj [])]) ''t''
     (JStr ''P_1'') (JStr ''F_1'') (JStr ''O_done'')
     ([JObj [(''number'', JInt 9)]] @ JObj [(''number'', JInt 10), (''node_id'', JStr ''I_ten'')]
        # [example_issue]) initial =
     (Inr (),
      \<lparr>requests = [item_request (JStr ''I_ten'') ''t'', item_request (JStr ''I_abc'') ''t'',
                   update_request (JStr ''P_1'') (JStr ''PVTI_1'') (JStr ''F_1'') (JStr ''O_done'') ''t''],
       printed = [''- #9: missing node id, skipping'',
                  ''- #10: not present on project, skipping'',
                  ''- #42: status updated to Done'']\<rparr>)"
proof -
  let ?net = "replay [Some example_other_items, Some example_items, Some (JObj [])]"
  let ?s1 = "initial\<lparr>printed := [''- #9: missing node id, skipping'']\<rparr>"
  have a: "process_issues ?net ''t'' (JStr ''P_1'') (JStr ''F_1'') (JStr ''O_done'')
             [JObj [(''number'', JInt 9)]] initial = (Inr (), ?s1)"
    by (simp add: process_issue_def print_def initial_def py_str_def str_int_def digit_char_def)
  have b: "subscript (JObj [(''number'', JInt 10), (''node_id'', JStr ''I_ten'')]) ''number''
             = Inr (JInt 10)"
    by simp
  have c: "get (JObj [(''number'', JInt 10), (''node_id'', JStr ''I_ten'')]) ''node_id'' JNull
             = Inr (JStr ''I_ten'')"
    by simp
  have d: "truthy (JStr ''I_ten'') \<longrightarrow>
             ?net (requests ?s1) (item_request (JStr ''I_ten'') ''t'') = Some example_other_items \<and>
             project_items example_other_items =
               Inr [JObj [(''id'', JStr ''PVTI_0''), (''project'', JObj [(''id'', JStr ''P_2'')])]] \<and>
             list_all (off_project (JStr ''P_1''))
               [JObj [(''id'', JStr ''PVTI_0''), (''project'', JObj [(''id'', JStr ''P_2'')])]]"
    by (simp add: replay_def initial_def project_items_def example_other_items_def)
  from skipped_issue_continues [where net = ?net and rest = "[example_issue]", OF a b c d]
  show ?thesis
    by (simp add: replay_def initial_def example_issue_def
      process_issue_def issue_project_item_id_eq update_status_eq item_project_id_def
      print_def py_str_def str_int_def digit_char_def STATUS_DONE_VALUE_def)
qed

text \<open>A request that fails ends the loop with the error.\<close>

lemma failed_lookup_ends_loop:
  assumes "subscript issue ''number'' = Inr number"
      and "get issue ''node_id'' JNull = Inr node_id" and "truthy node_id"
      and "net (requests s) (item_request node_id token) = None"
  shows "process_issues net token pid fid oid (issue # rest) s =
           (Inl RequestError, s\<lparr>requests := requests s @ [item_request node_id token]\<rparr>)"
  using assms by (simp add: process_issue_def issue_project_item_id_eq)

lemma failed_update_ends_loop:
  assumes "subscript issue ''number'' = Inr number"
      and "get issue ''node_id'' JNull = Inr node_id" and "truthy node_id"
      and "net (requests s) (item_request node_id token) = Some result"
      and "project_items result = Inr (before @ item # after)"
      and "list_all (off_project pid) before" and "on_project pid item"
      and "get item ''id'' JNull = Inr item_id" and "truthy item_id"
      and "net (requests s @ [item_request node_id token])
             (update_request pid item_id fid oid token) = None"
  shows "process_issues net token pid fid oid (issue # rest) s =
           (Inl RequestError,
            s\<lparr>requests := requests s @ [item_request node_id token,
                                          update_request pid item_id fid oid token]\<rparr>)"
proof -
  from find_item_first [OF assms(6,7)] assms(8)
  have "find_item (before @ item # after) pid = Inr item_id" by simp
  with assms show ?thesis
    by (simp add: process_issue_def issue_project_item_id_eq update_status_eq)
qed

subsection \<open>An issue that is updated\<close>

text \<open>What the request of \<^verbatim>\<open>_update_status\<close> carries (lines 147 to 151).\<close>

lemma update_request_payload:
  "update_request pid item_id fid oid token =
     \<lparr>req_url = ''https://api.github.com/graphql'', req_method = ''GET'',
      req_headers = [(''Authorization'', ''Bearer '' @ token),
                     (''User-Agent'', ''ascenoria-status-script''),
                     (''Content-Type'', ''application/json'')],
      req_data = Some (JObj [(''query'', JStr mutation),
                             (''variables'',
                              JObj [(''projectId'', pid), (''itemId'', item_id),
                                    (''fieldId'', fid), (''optionId'', oid)])])\<rparr>"
  by (simp add: update_request_def graphql_request_def build_request_def mutation_variables_def
      GITHUB_API_def)

text \<open>
  When the resolver has returned \<open>(pid, fid, oid)\<close> and the issues of the run are the one
  issue \<open>issue\<close>, with the number \<open>n\<close>, a node identifier and exactly one item \<open>item\<close>
  under the project \<open>pid\<close> among the items of the answer, \<^verbatim>\<open>main\<close> sends the item query
  and then one mutation with \<open>pid\<close>, the identifier of \<open>item\<close>, \<open>fid\<close> and \<open>oid\<close>, and
  prints the line \<^verbatim>\<open>- #n: status updated to Done\<close> after the summary line.
\<close>

lemma issue_on_project_is_updated:
  assumes "require_token environ = Inr token"
      and "fetch_project_metadata net token s = (Inr (pid, fid, oid), s1)"
      and "select_issues net token issues s1 = (Inr [issue], s2)"
      and "subscript issue ''number'' = Inr (JInt n)"
      and "get issue ''node_id'' JNull = Inr node_id" and "truthy node_id"
      and "net (requests s2) (item_request node_id token) = Some result"
      and "project_items result = Inr items"
      and "list_all (\<lambda>it. on_project pid it \<or> off_project pid it) items"
      and "filter (on_project pid) items = [item]"
      and "get item ''id'' JNull = Inr item_id" and "truthy item_id"
      and "net (requests s2 @ [item_request node_id token])
             (update_request pid item_id fid oid token) = Some answer"
  shows "main net environ issues s =
           (Inr (),
            s2\<lparr>requests := requests s2 @ [item_request node_id token,
                                            update_request pid item_id fid oid token],
               printed := printed s2 @ [summary_line 1,
                                        ''- #'' @ str_int n @ '': status updated to Done'']\<rparr>)
         \<and> filter is_mutation (requests (snd (main net environ issues s)))
             = filter is_mutation (requests s2) @ [update_request pid item_id fid oid token]"
proof -
  from assms(10) obtain before rest where items: "items = before @ item # rest"
    and b: "\<forall>u \<in> set before. \<not> on_project pid u" and i: "on_project pid item"
    by (auto simp: filter_eq_Cons_iff)
  from assms(9) b items have "list_all (off_project pid) before"
    by (auto simp: list_all_iff)
  from find_item_first [OF this i] items assms(11)
  have f: "find_item items pid = Inr item_id" by simp
  let ?s = "print (summary_line (length [issue])) s2"
  have "process_issue net token pid fid oid issue ?s =
         (Inr (), print (''- #'' @ py_str (JInt n) @ '': status updated to '' @ STATUS_DONE_VALUE)
                    (?s\<lparr>requests := requests ?s @ [item_request node_id token,
                                                       update_request pid item_id fid oid token]\<rparr>))"
    using assms(4-8,12,13) f
    by (simp add: process_issue_def issue_project_item_id_eq update_status_eq)
  then have m: "main net environ issues s =
           (Inr (),
            s2\<lparr>requests := requests s2 @ [item_request node_id token,
                                            update_request pid item_id fid oid token],
               printed := printed s2 @ [summary_line 1,
                                        ''- #'' @ str_int n @ '': status updated to Done'']\<rparr>)"
    using assms(1-3)
    by (simp add: main_eq print_def py_str_def STATUS_DONE_VALUE_def)
  then show ?thesis by simp
qed

lemma issue_on_project_example:
  "main example_run (environ_with ''t'') [] initial =
     (Inr (),
      \<lparr>requests = [metadata_request ''t'', build_request closed_issues_url ''t'' ''GET'' None,
                   item_request (JStr ''I_abc'') ''t'',
                   update_request (JStr ''P_1'') (JStr ''PVTI_1'') (JStr ''F_1'') (JStr ''O_done'') ''t''],
       printed = [''Updating 1 issue(s) to Status=Done on project 2...'',
                  ''- #42: status updated to Done'']\<rparr>)"
proof -
  let ?s1 = "initial\<lparr>requests := [metadata_request ''t'']\<rparr>"
  let ?s2 = "initial\<lparr>requests := [metadata_request ''t'',
                                      build_request closed_issues_url ''t'' ''GET'' None]\<rparr>"
  have meta: "fetch_project_metadata example_run ''t'' initial =
      (Inr (JStr ''P_1'', JStr ''F_1'', JStr ''O_done''), ?s1)"
    by (simp add: example_run_def fetch_example_metadata)
  have sel: "select_issues example_run ''t'' [] ?s1 = (Inr [example_issue], ?s2)"
    by (simp add: select_issues_def closed_codex_done_issues_def request_eq example_run_def
        replay_def initial_def example_issue_def)
  have look: "example_run (requests ?s2) (item_request (JStr ''I_abc'') ''t'') = Some example_items"
    by (simp add: example_run_def replay_def initial_def)
  have upd: "example_run (requests ?s2 @ [item_request (JStr ''I_abc'') ''t''])
      (update_request (JStr ''P_1'') (JStr ''PVTI_1'') (JStr ''F_1'') (JStr ''O_done'') ''t'') = Some (JObj [])"
    by (simp add: example_run_def replay_def initial_def)
  from issue_on_project_is_updated [where net = example_run and issue = example_issue
      and n = 42 and node_id = "JStr ''I_abc''"
      and item = "JObj [(''id'', JStr ''PVTI_1''), (''project'', JObj [(''id'', JStr ''P_1'')])]"
      and item_id = "JStr ''PVTI_1''" and issues = "[]",
      OF require_token_environ_with meta sel _ _ _ look project_items_example _ _ _ _ upd]
  show ?thesis
    by (simp add: example_issue_def initial_def summary_line_1 str_int_def digit_char_def)
qed

text \<open>
  With issue numbers in \<^verbatim>\<open>args.issues\<close>, the answer to the request for an issue goes to
  the loop as it is: nothing is asked of its state, its labels or a key
  \<^verbatim>\<open>pull_request\<close>. If it has a number \<open>m\<close> and a node identifier and the item query
  finds an item of the project, the mutation is sent and the update is printed. The same
  record in the answer for the label is left out when it has the key \<^verbatim>\<open>pull_request\<close>.
\<close>

lemma explicit_mode_has_no_filter:
  assumes "require_token environ = Inr token"
      and "fetch_project_metadata net token s = (Inr (pid, fid, oid), s1)"
      and "set issues = {n}"
      and "net (requests s1) (issue_request token n) = Some issue"
      and "subscript issue ''number'' = Inr (JInt m)"
      and "get issue ''node_id'' JNull = Inr node_id" and "truthy node_id"
      and "net (requests s1 @ [issue_request token n]) (item_request node_id token) = Some result"
      and "project_items result = Inr (before @ item # rest)"
      and "list_all (off_project pid) before" and "on_project pid item"
      and "get item ''id'' JNull = Inr item_id" and "truthy item_id"
      and "net (requests s1 @ [issue_request token n, item_request node_id token])
             (update_request pid item_id fid oid token) = Some answer"
  shows "main net environ issues s =
           (Inr (),
            s1\<lparr>requests := requests s1 @ [issue_request token n, item_request node_id token,
                                            update_request pid item_id fid oid token],
               printed := printed s1 @ [summary_line 1,
                                        ''- #'' @ str_int m @ '': status updated to Done'']\<rparr>)
         \<and> (py_in ''pull_request'' issue = Inr True \<longrightarrow> non_pull_requests [issue] = Inr [])"
proof -
  from assms(3) have ne: "issues \<noteq> []" by auto
  from assms(3) have nums: "sorted_list_of_set (set issues) = [n]" by simp
  let ?s2 = "s1\<lparr>requests := requests s1 @ [issue_request token n]\<rparr>"
  from assms(4) have sel: "select_issues net token issues s1 = (Inr [issue], ?s2)"
    by (simp add: select_issues_def ne nums request_eq issue_request_def)
  from find_item_first [OF assms(10,11)] assms(12)
  have f: "find_item (before @ item # rest) pid = Inr item_id" by simp
  let ?s = "print (summary_line (length [issue])) ?s2"
  have "process_issue net token pid fid oid issue ?s =
         (Inr (), print (''- #'' @ str_int m @ '': status updated to '' @ STATUS_DONE_VALUE)
                    (?s\<lparr>requests := requests ?s @ [item_request node_id token,
                                                       update_request pid item_id fid oid token]\<rparr>))"
    using assms(5-9,13,14) f
    by (simp add: process_issue_def issue_project_item_id_eq update_status_eq py_str_def)
  then have "main net environ issues s =
           (Inr (),
            s1\<lparr>requests := requests s1 @ [issue_request token n, item_request node_id token,
                                            update_request pid item_id fid oid token],
               printed := printed s1 @ [summary_line 1,
                                        ''- #'' @ str_int m @ '': status updated to Done'']\<rparr>)"
    using assms(1,2) sel
    by (simp add: main_eq print_def STATUS_DONE_VALUE_def)
  then show ?thesis by simp
qed

lemma explicit_mode_example:
  "main (replay [Some example_metadata, Some example_pull_request, Some example_items, Some (JObj [])])
     (environ_with ''t'') [7, 7] initial =
     (Inr (),
      \<lparr>requests = [metadata_request ''t'', issue_request ''t'' 7,
                   item_request (JStr ''PR_7'') ''t'',
                   update_request (JStr ''P_1'') (JStr ''PVTI_1'') (JStr ''F_1'') (JStr ''O_done'') ''t''],
       printed = [''Updating 1 issue(s) to Status=Done on project 2...'',
                  ''- #7: status updated to Done'']\<rparr>)
   \<and> non_pull_requests [example_pull_request] = Inr []"
proof -
  let ?net = "replay [Some example_metadata, Some example_pull_request, Some example_items, Some (JObj [])]"
  let ?s1 = "initial\<lparr>requests := [metadata_request ''t'']\<rparr>"
  have meta: "fetch_project_metadata ?net ''t'' initial =
      (Inr (JStr ''P_1'', JStr ''F_1'', JStr ''O_done''), ?s1)"
    by (rule fetch_example_metadata)
  have n: "set [7, 7] = {7::int}" by simp
  have a: "?net (requests ?s1) (issue_request ''t'' 7) = Some example_pull_request"
    by (simp add: replay_def initial_def)
  have b: "subscript example_pull_request ''number'' = Inr (JInt 7)"
    by (simp add: example_pull_request_def)
  have c: "get example_pull_request ''node_id'' JNull = Inr (JStr ''PR_7'')"
    by (simp add: example_pull_request_def)
  have d: "?net (requests ?s1 @ [issue_request ''t'' 7]) (item_request (JStr ''PR_7'') ''t'')
             = Some example_items"
    by (simp add: replay_def initial_def)
  have e: "project_items example_items =
     Inr ([JObj [(''id'', JStr ''PVTI_0''), (''project'', JObj [(''id'', JStr ''P_2'')])]]
          @ JObj [(''id'', JStr ''PVTI_1''), (''project'', JObj [(''id'', JStr ''P_1'')])] # [])"
    by simp
  have f: "?net (requests ?s1 @ [issue_request ''t'' 7, item_request (JStr ''PR_7'') ''t''])
             (update_request (JStr ''P_1'') (JStr ''PVTI_1'') (JStr ''F_1'') (JStr ''O_done'') ''t'')
             = Some (JObj [])"
    by (simp add: replay_def initial_def)
  have m: "py_in ''pull_request'' example_pull_request = Inr True"
    by (simp add: example_pull_request_def)
  from explicit_mode_has_no_filter [where net = ?net and s = initial and issues = "[7, 7]"
      and item_id = "JStr ''PVTI_1''",
      OF require_token_environ_with meta n a b c _ d e _ _ _ _ f] m
  show ?thesis
    by (simp add: initial_def summary_line_1 py_str_def str_int_def digit_char_def)
qed

subsection \<open>Every mutation is for an item of the project\<close>

lemma target_mutation_prefix:
  "i < length tr \<Longrightarrow>
     target_mutation net token pid fid oid (tr @ ys) i = target_mutation net token pid fid oid tr i"
  by (cases i) (simp_all add: target_mutation_def nth_append)

lemma justified_Nil: "justified net token pid fid oid []"
  by (simp add: justified_def)

lemma justified_plain:
  assumes "justified net token pid fid oid tr" and "\<forall>r \<in> set rs. \<not> is_mutation r"
  shows "justified net token pid fid oid (tr @ rs)"
  unfolding justified_def
proof (intro allI impI)
  fix i
  assume i: "i < length (tr @ rs)" and m: "is_mutation ((tr @ rs) ! i)"
  have "i < length tr"
  proof (rule ccontr)
    assume "\<not> i < length tr"
    with i have "(tr @ rs) ! i \<in> set rs" by (simp add: nth_append)
    with assms(2) m show False by blast
  qed
  with m assms(1) show "target_mutation net token pid fid oid (tr @ rs) i"
    by (simp add: justified_def target_mutation_prefix nth_append)
qed

lemma justified_update:
  assumes "justified net token pid fid oid tr"
      and "net tr (item_request node_id token) = Some result"
      and "project_items result = Inr items" and "item \<in> set items"
      and "on_project pid item" and "get item ''id'' JNull = Inr item_id"
  shows "justified net token pid fid oid
           (tr @ [item_request node_id token, update_request pid item_id fid oid token])"
  unfolding justified_def
proof (intro allI impI)
  fix i
  let ?tr = "tr @ [item_request node_id token, update_request pid item_id fid oid token]"
  assume i: "i < length ?tr" and m: "is_mutation (?tr ! i)"
  consider "i < length tr" | "i = length tr" | "i = Suc (length tr)"
    using i by force
  then show "target_mutation net token pid fid oid ?tr i"
  proof cases
    case 1
    with m assms(1) show ?thesis
      by (simp add: justified_def target_mutation_prefix nth_append)
  next
    case 2
    with m show ?thesis by (simp add: nth_append)
  next
    case 3
    with assms(2-6) show ?thesis
      unfolding target_mutation_def
      by (intro exI [of _ node_id] exI [of _ result] exI [of _ items] exI [of _ item]
          exI [of _ item_id]) (simp add: nth_append)
  qed
qed

lemma process_issue_justified:
  assumes "justified net token pid fid oid (requests s)"
      and "process_issue net token pid fid oid issue s = (r, s')"
  shows "justified net token pid fid oid (requests s')"
  using process_issue_requests [OF assms(2)]
proof (elim disjE exE conjE)
  assume "requests s' = requests s"
  with assms(1) show ?thesis by simp
next
  fix node_id
  assume "requests s' = requests s @ [item_request node_id token]"
  with justified_plain [OF assms(1), of "[item_request node_id token]"] show ?thesis by simp
next
  fix node_id result items item item_id
  assume "requests s' = requests s @ [item_request node_id token, update_request pid item_id fid oid token]"
    "net (requests s) (item_request node_id token) = Some result"
    "project_items result = Inr items" "item \<in> set items"
    "on_project pid item" "get item ''id'' JNull = Inr item_id"
  with justified_update [OF assms(1)] show ?thesis by simp
qed

lemma process_issues_justified:
  "justified net token pid fid oid (requests s) \<Longrightarrow>
   process_issues net token pid fid oid issues s = (r, s') \<Longrightarrow>
   justified net token pid fid oid (requests s')"
proof (induction issues arbitrary: s)
  case Nil
  then show ?case by simp
next
  case (Cons issue rest)
  obtain r1 s1 where step: "process_issue net token pid fid oid issue s = (r1, s1)"
    by (cases "process_issue net token pid fid oid issue s")
  from process_issue_justified [OF Cons.prems(1) step]
  have j: "justified net token pid fid oid (requests s1)" .
  show ?case
  proof (cases r1)
    case (Inl e)
    with step Cons.prems(2) j show ?thesis by simp
  next
    case (Inr u)
    with step Cons.prems(2) have "process_issues net token pid fid oid rest s1 = (r, s')"
      by simp
    from Cons.IH [OF j this] show ?thesis .
  qed
qed

lemma select_issues_requests:
  assumes "select_issues net token issues s = (r, s')"
  shows "\<exists>rs. s' = s\<lparr>requests := requests s @ rs\<rparr> \<and> (\<forall>q \<in> set rs. \<not> is_mutation q)"
proof (cases "issues = []")
  case True
  with assms have "s' = s\<lparr>requests := requests s @ [build_request closed_issues_url token ''GET'' None]\<rparr>"
    by (auto simp: select_issues_def closed_codex_done_issues_def request_eq split: option.splits)
  then show ?thesis by (intro exI [of _ "[build_request closed_issues_url token ''GET'' None]"]) simp
next
  case False
  with assms have "fetch_selected net token (sorted_list_of_set (set issues)) s = (r, s')"
    by (simp add: select_issues_def)
  from fetch_selected_requests [OF this] obtain k where
    "s' = s\<lparr>requests := requests s @ map (issue_request token) (take k (sorted_list_of_set (set issues)))\<rparr>"
    by blast
  then show ?thesis
    by (intro exI [of _ "map (issue_request token) (take k (sorted_list_of_set (set issues)))"])
       (auto simp: issue_request_def)
qed

lemma main_justified:
  assumes "require_token environ = Inr token"
      and "fetch_project_metadata net token initial = (Inr (pid, fid, oid), s1)"
      and "main net environ issues initial = (r, s')"
  shows "justified net token pid fid oid (requests s')"
proof -
  from assms(2) have s1: "requests s1 = [] @ [metadata_request token]"
    by (auto simp: fetch_project_metadata_eq initial_def)
  have j1: "justified net token pid fid oid (requests s1)"
    unfolding s1 by (rule justified_plain [OF justified_Nil]) simp
  obtain r2 s2 where sel: "select_issues net token issues s1 = (r2, s2)"
    by (cases "select_issues net token issues s1")
  from select_issues_requests [OF sel] obtain rs where
    rs: "s2 = s1\<lparr>requests := requests s1 @ rs\<rparr>" "\<forall>q \<in> set rs. \<not> is_mutation q"
    by blast
  from justified_plain [OF j1 rs(2)] rs(1)
  have j2: "justified net token pid fid oid (requests s2)" by simp
  show ?thesis
  proof (cases r2)
    case (Inl e)
    with assms sel j2 show ?thesis by (simp add: main_eq)
  next
    case (Inr selected)
    with assms sel have "process_issues net token pid fid oid selected
        (print (summary_line (length selected)) s2) = (r, s')"
      by (simp add: main_eq)
    from process_issues_justified [OF _ this] j2 show ?thesis by simp
  qed
qed

text \<open>
  Claim C1. In a run of \<^verbatim>\<open>main\<close>, every request that is a mutation comes right after
  the item query of an issue, and carries the project identifier \<open>pid\<close> that the
  resolver returned and the identifier of an item of the answer to that query whose
  parent project identifier \<open>p\<close> is equal to \<open>pid\<close> for Python (\<open>py_eq\<close>), which is the
  same value when \<open>pid\<close> is a string. An item of another project is never the item of a
  mutation.
\<close>

theorem mutations_only_for_target_project:
  assumes "main net environ issues initial = (r, s')"
      and "i < length (requests s')"
      and "is_mutation (requests s' ! i)"
  shows "\<exists>token pid fid oid s1 node_id result items item p item_id.
           require_token environ = Inr token \<and>
           fetch_project_metadata net token initial = (Inr (pid, fid, oid), s1) \<and>
           requests s' ! i = update_request pid item_id fid oid token \<and>
           0 < i \<and> requests s' ! (i - 1) = item_request node_id token \<and>
           net (take (i - 1) (requests s')) (item_request node_id token) = Some result \<and>
           project_items result = Inr items \<and> item \<in> set items \<and>
           get item ''id'' JNull = Inr item_id \<and>
           item_project_id item = Inr p \<and> py_eq p pid \<and> (\<forall>x. pid = JStr x \<longrightarrow> p = pid)"
proof (cases "require_token environ")
  case (Inl e)
  with assms(1) have "s' = initial" by (simp add: main_def)
  with assms(2) show ?thesis by (simp add: initial_def)
next
  case token: (Inr token)
  obtain m s1 where meta: "fetch_project_metadata net token initial = (m, s1)"
    by (cases "fetch_project_metadata net token initial")
  show ?thesis
  proof (cases m)
    case (Inl e)
    with token meta assms(1) have "s' = s1" by (simp add: main_def)
    with meta have "requests s' = [metadata_request token]"
      by (auto simp: fetch_project_metadata_eq initial_def)
    with assms(2,3) show ?thesis by simp
  next
    case (Inr ids)
    obtain pid fid oid where ids: "ids = (pid, fid, oid)" by (cases ids)
    from meta Inr ids have meta': "fetch_project_metadata net token initial = (Inr (pid, fid, oid), s1)"
      by simp
    from main_justified [OF token meta' assms(1)] assms(2,3)
    have "target_mutation net token pid fid oid (requests s') i"
      by (simp add: justified_def)
    then obtain node_id result items item item_id where t:
      "0 < i" "requests s' ! (i - 1) = item_request node_id token"
      "net (take (i - 1) (requests s')) (item_request node_id token) = Some result"
      "project_items result = Inr items" "item \<in> set items"
      "on_project pid item" "get item ''id'' JNull = Inr item_id"
      "requests s' ! i = update_request pid item_id fid oid token"
      unfolding target_mutation_def by blast
    from t(6) obtain p where p: "item_project_id item = Inr p" "py_eq p pid"
      by (cases "item_project_id item") (auto simp: on_project_def)
    from p(2) have "\<forall>x. pid = JStr x \<longrightarrow> p = pid" by auto
    with token meta' t p show ?thesis by blast
  qed
qed

theorem mutations_only_for_target_project_witness:
  "3 < length (requests (snd (main example_run (environ_with ''t'') [] initial)))
   \<and> is_mutation (requests (snd (main example_run (environ_with ''t'') [] initial)) ! 3)
   \<and> (\<exists>token pid fid oid s1 node_id result items item p item_id.
         require_token (environ_with ''t'') = Inr token \<and>
         fetch_project_metadata example_run token initial = (Inr (pid, fid, oid), s1) \<and>
         requests (snd (main example_run (environ_with ''t'') [] initial)) ! 3
           = update_request pid item_id fid oid token \<and>
         (0::nat) < 3 \<and>
         requests (snd (main example_run (environ_with ''t'') [] initial)) ! (3 - 1)
           = item_request node_id token \<and>
         example_run (take (3 - 1) (requests (snd (main example_run (environ_with ''t'') [] initial))))
           (item_request node_id token) = Some result \<and>
         project_items result = Inr items \<and> item \<in> set items \<and>
         get item ''id'' JNull = Inr item_id \<and>
         item_project_id item = Inr p \<and> py_eq p pid \<and> (\<forall>x. pid = JStr x \<longrightarrow> p = pid))"
proof -
  have a: "main example_run (environ_with ''t'') [] initial =
      (fst (main example_run (environ_with ''t'') [] initial),
       snd (main example_run (environ_with ''t'') [] initial))"
    by simp
  have b: "3 < length (requests (snd (main example_run (environ_with ''t'') [] initial)))"
    by (simp add: main_example_run)
  have c: "is_mutation (requests (snd (main example_run (environ_with ''t'') [] initial)) ! 3)"
    by (simp add: main_example_run)
  from mutations_only_for_target_project [OF a b c] b c show ?thesis by blast
qed

section \<open>The program as it is written\<close>

text \<open>
  The lemmas above on \<open>main\<close> that say what a run prints or sends hold once the module
  is loaded with the template that line 177 fills. The module as it is written is not
  loaded: the fifth of its f-string literals, on line 174, is refused.
\<close>

lemma compile_module_rejected: "compile_module = Inl SyntaxError"
  by (simp add: compile_module_def module_fstrings_def strip_blanks_def)

lemma script_rejected: "script argparse net environ argv s = (Inl SyntaxError, s)"
  by (simp add: script_def compile_module_rejected)

text \<open>
  Claim C3. Without the variable \<^verbatim>\<open>GITHUB_TOKEN\<close> the claim expects the run to end with
  the message of \<^verbatim>\<open>_require_token\<close>. The run ends before line 168 is reached, with the
  syntax error of line 174 and the exit status 1; no request is sent. The message about
  the token is what \<^verbatim>\<open>_require_token\<close> would raise.
\<close>

theorem run_without_token_is_syntax_error:
  "script argparse net (\<lambda>k. None) [] initial = (Inl SyntaxError, initial)
   \<and> exit_status (fst (script argparse net (\<lambda>k. None) [] initial)) = 1
   \<and> require_token (\<lambda>k. None)
       = Inl (SystemExit ''GITHUB_TOKEN is required to update project status'')"
  by (simp add: script_rejected require_token_def)

text \<open>
  Claim C5. With a token, no issue number, and a network that would answer the metadata
  query, the list of closed issues (issue 9 with no node identifier, issue 10 on another
  project only, issue 42 on the project) and the item queries, the claim expects the skip
  lines of the issues 9 and 10 and the update of issue 42. The run prints nothing and
  sends no request: it ends with the syntax error of line 174.
\<close>

theorem run_prints_no_skip_line:
  "printed (snd (script argparse
     (replay [Some example_metadata,
              Some (JArr [JObj [(''number'', JInt 9)],
                          JObj [(''number'', JInt 10), (''node_id'', JStr ''I_ten'')],
                          example_issue]),
              Some example_other_items, Some example_items, Some (JObj [])])
     (environ_with ''t'') [] initial)) = []
   \<and> requests (snd (script argparse
     (replay [Some example_metadata,
              Some (JArr [JObj [(''number'', JInt 9)],
                          JObj [(''number'', JInt 10), (''node_id'', JStr ''I_ten'')],
                          example_issue]),
              Some example_other_items, Some example_items, Some (JObj [])])
     (environ_with ''t'') [] initial)) = []"
  by (simp add: script_rejected initial_def)

text \<open>
  Claim C7. With a token and a network that answers every request of the example, no
  cause of the claim for another exit status than 0 is there: the token is set, the
  metadata can be resolved and no request fails. The exit status is 1, from the syntax
  error of line 174.
\<close>

theorem run_with_token_exits_1:
  "exit_status (fst (script argparse example_run (environ_with ''t'') [] initial)) = 1
   \<and> fst (script argparse example_run (environ_with ''t'') [] initial) = Inl SyntaxError
   \<and> require_token (environ_with ''t'') = Inr ''t''
   \<and> fst (fetch_project_metadata example_run ''t'' initial)
       = Inr (JStr ''P_1'', JStr ''F_1'', JStr ''O_done'')"
  by (simp add: script_rejected example_run_metadata)

text \<open>
  Claim C8. On the example of the specification (issue 42 with the node identifier
  \<^verbatim>\<open>I_abc\<close> and the item \<^verbatim>\<open>PVTI_1\<close> under the project \<^verbatim>\<open>P_1\<close>) the claim expects one
  mutation and the line \<^verbatim>\<open>- #42: status updated to Done\<close>. The run sends no mutation
  and does not print the line: it ends with the syntax error of line 174.
\<close>

theorem example_run_sends_no_mutation:
  "filter is_mutation
     (requests (snd (script argparse example_run (environ_with ''t'') [] initial))) = []
   \<and> ''- #42: status updated to Done''
       \<notin> set (printed (snd (script argparse example_run (environ_with ''t'') [] initial)))"
  by (simp add: script_rejected initial_def)

text \<open>
  Claim C9. With the issue number 7 on the command line, and a network that would answer
  with the pull request 7 and an item of the project, the claim expects the record to
  be looked up and changed. The run sends no request at all, whatever \<^verbatim>\<open>argparse\<close>
  does with the arguments: it ends with the syntax error of line 174.
\<close>

theorem explicit_run_fetches_nothing:
  "script argparse
     (replay [Some example_metadata, Some example_pull_request, Some example_items,
              Some (JObj [])])
     (environ_with ''t'') [''7''] initial = (Inl SyntaxError, initial)
   \<and> requests (snd (script argparse
     (replay [Some example_metadata, Some example_pull_request, Some example_items,
              Some (JObj [])])
     (environ_with ''t'') [''7''] initial)) = []"
  by (simp add: script_rejected initial_def)

end
